theory Spec2Isabelle
  imports Main "HOL-Library.Sublist"
begin

section \<open>Values, dictionaries, errors\<close>

text \<open>
  The review dictionaries that travel from the in-page script through the collector to the
  adapters are Python dicts with string keys. The script only ever stores strings, but every
  Python reader guards against a missing key and against \<open>None\<close> (\<open>r.get(k) or ""\<close>),
  so a field is a string or \<open>None\<close>, and a key may be absent.
\<close>

datatype pyval = PNone | PStr string

type_synonym pydict = "string \<rightharpoonup> pyval"

datatype error =
    TypeError
  | RuntimeError string
  | ValueError string
  | PlaywrightError
  | FileExistsError
  | FileNotFoundError
  | NotADirectoryError
  | IsADirectoryError

text \<open>\<open>r.get(k, d)\<close>; \<open>r.get(k)\<close> is \<open>dict_get r k PNone\<close>.\<close>

definition dict_get :: "pydict \<Rightarrow> string \<Rightarrow> pyval \<Rightarrow> pyval" where
  "dict_get r k d = (case r k of None \<Rightarrow> d | Some v \<Rightarrow> v)"

text \<open>\<open>v or ""\<close>: \<open>None\<close> and the empty string are falsy, any other string is itself.\<close>

fun or_empty :: "pyval \<Rightarrow> string" where
  "or_empty PNone = []"
| "or_empty (PStr s) = s"

text \<open>\<open>r.get('date') or ""\<close>, the raw date field as the adapters read it.\<close>

definition raw_date :: "pydict \<Rightarrow> string" where
  "raw_date r = or_empty (dict_get r ''date'' PNone)"

section \<open>Helpers: dates\<close>

text \<open>
  \<open>dateutil.parser.parse\<close>, the comparisons of \<open>datetime\<close> and \<open>strftime\<close> are library
  code. They are parameters of the model, with no assumption on what they compute:
  \<open>dateutil_parse\<close> is \<open>None\<close> where the parser raises; a comparison is \<open>None\<close> where
  Python raises \<open>TypeError\<close> (a naive against an aware datetime). A \<open>datetime\<close> object is
  always truthy, so \<open>if dt\<close> and \<open>a or b\<close> only test for \<open>None\<close>.
\<close>

record 'd datelib =
  dateutil_parse :: "string \<Rightarrow> 'd option"
  dt_le :: "'d \<Rightarrow> 'd \<Rightarrow> bool option"
  dt_gt :: "'d \<Rightarrow> 'd \<Rightarrow> bool option"
  strftime :: "'d \<Rightarrow> string \<Rightarrow> string"

definition parse_date_safe :: "'d datelib \<Rightarrow> string \<Rightarrow> 'd option" where
  "parse_date_safe lib date_str = dateutil_parse lib date_str"

text \<open>\<open>start <= dt <= end\<close>: the chained comparison stops at the first false link.\<close>

definition within_range :: "'d datelib \<Rightarrow> 'd \<Rightarrow> 'd \<Rightarrow> 'd \<Rightarrow> error + bool" where
  "within_range lib dt start end_d =
     (case dt_le lib start dt of
        None \<Rightarrow> Inl TypeError
      | Some False \<Rightarrow> Inr False
      | Some True \<Rightarrow>
          (case dt_le lib dt end_d of
             None \<Rightarrow> Inl TypeError
           | Some b \<Rightarrow> Inr b))"

definition iso :: "'d datelib \<Rightarrow> 'd \<Rightarrow> string" where
  "iso lib d = strftime lib d ''%Y-%m-%d''"

section \<open>The in-page extraction script\<close>

subsection \<open>JavaScript string operations\<close>

text \<open>
  A character stands for one code unit of a JavaScript string, in the Latin-1 range.
  \<open>js_space\<close> is the class \<open>\s\<close> there (also what \<open>trim\<close> strips): TAB, LF, VT, FF, CR,
  SPACE, NBSP.
\<close>

definition js_space :: "char \<Rightarrow> bool" where
  "js_space c = ((of_char c :: nat) \<in> {9, 10, 11, 12, 13, 32, 160})"

definition is_digit :: "char \<Rightarrow> bool" where
  "is_digit c = (48 \<le> (of_char c :: nat) \<and> (of_char c :: nat) \<le> 57)"

text \<open>The class \<open>\w\<close>: letters, digits, underscore.\<close>

definition is_word :: "char \<Rightarrow> bool" where
  "is_word c = (let n = (of_char c :: nat) in
     (48 \<le> n \<and> n \<le> 57) \<or> (65 \<le> n \<and> n \<le> 90) \<or> (97 \<le> n \<and> n \<le> 122) \<or> n = 95)"

definition trim :: "string \<Rightarrow> string" where
  "trim s = rev (dropWhile js_space (rev (dropWhile js_space s)))"

text \<open>\<open>toLowerCase\<close>: an upper-case letter (bit 5 clear) becomes the letter with bit 5 set.\<close>

definition lower_char :: "char \<Rightarrow> char" where
  "lower_char c = (let n = (of_char c :: nat) in
     if (65 \<le> n \<and> n \<le> 90) \<or> (192 \<le> n \<and> n \<le> 222 \<and> n \<noteq> 215)
     then (case c of Char b0 b1 b2 b3 b4 b5 b6 b7 \<Rightarrow> Char b0 b1 b2 b3 b4 True b6 b7)
     else c)"

definition toLowerCase :: "string \<Rightarrow> string" where
  "toLowerCase s = map lower_char s"

text \<open>\<open>s.includes(sub)\<close>.\<close>

fun str_includes :: "string \<Rightarrow> string \<Rightarrow> bool" where
  "str_includes [] sub = (sub = [])"
| "str_includes (c # cs) sub = (prefix sub (c # cs) \<or> str_includes cs sub)"

text \<open>\<open>s.split(sep)\<close> for a one-character separator: always at least one piece.\<close>

fun split_on :: "char \<Rightarrow> string \<Rightarrow> string list" where
  "split_on sep [] = [[]]"
| "split_on sep (c # cs) =
     (if c = sep then [] # split_on sep cs
      else (case split_on sep cs of
              [] \<Rightarrow> [[c]]
            | l # ls \<Rightarrow> (c # l) # ls))"

text \<open>\<open>xs.join(" ")\<close>.\<close>

fun join_space :: "string list \<Rightarrow> string" where
  "join_space [] = []"
| "join_space [x] = x"
| "join_space (x # y # ys) = x @ '' '' @ join_space (y # ys)"

subsection \<open>The two regular expressions of the review heuristic\<close>

text \<open>
  A word boundary \<open>\b\<close> after a word character: the end of the string or a non-word
  character next.
\<close>

definition boundary_next :: "string \<Rightarrow> bool" where
  "boundary_next s = (case s of [] \<Rightarrow> True | c # _ \<Rightarrow> \<not> is_word c)"

text \<open>\<open>\d{4,4}-\d{2}-\d{2}\b\<close> at the head of the string.\<close>

definition date_token_here :: "string \<Rightarrow> bool" where
  "date_token_here s =
     (case s of
        y1 # y2 # y3 # y4 # h1 # m1 # m2 # h2 # d1 # d2 # after \<Rightarrow>
          is_digit y1 \<and> is_digit y2 \<and> is_digit y3 \<and> is_digit y4 \<and> h1 = CHR ''-'' \<and>
          is_digit m1 \<and> is_digit m2 \<and> h2 = CHR ''-'' \<and> is_digit d1 \<and> is_digit d2 \<and>
          boundary_next after
      | _ \<Rightarrow> False)"

text \<open>\<open>(days|months|years)\b\<close> at the head of the string.\<close>

definition unit_here :: "string \<Rightarrow> bool" where
  "unit_here s =
     ((prefix ''days'' s \<and> boundary_next (drop 4 s)) \<or>
      (prefix ''months'' s \<and> boundary_next (drop 6 s)) \<or>
      (prefix ''years'' s \<and> boundary_next (drop 5 s)))"

text \<open>
  \<open>\s+(days|months|years)\b\<close> at the head of the string: the unit starts with a letter,
  so the run of white space is taken whole.
\<close>

definition space_unit_here :: "string \<Rightarrow> bool" where
  "space_unit_here s =
     (case s of [] \<Rightarrow> False | c # _ \<Rightarrow> js_space c \<and> unit_here (dropWhile js_space s))"

text \<open>\<open>\d{1,2}\s+(days|months|years)\b\<close> at the head of the string.\<close>

definition relative_token_here :: "string \<Rightarrow> bool" where
  "relative_token_here s =
     (case s of
        [] \<Rightarrow> False
      | d1 # r1 \<Rightarrow>
          is_digit d1 \<and>
          (space_unit_here r1 \<or>
           (case r1 of [] \<Rightarrow> False | d2 # r2 \<Rightarrow> is_digit d2 \<and> space_unit_here r2)))"

text \<open>
  An unanchored search for \<open>\b\<close> followed by a token that starts with a digit: the token
  may start wherever the character before (if any) is not a word character.
  \<open>prev_word\<close> tells whether the character before the head is one.
\<close>

fun search_boundary :: "(string \<Rightarrow> bool) \<Rightarrow> bool \<Rightarrow> string \<Rightarrow> bool" where
  "search_boundary tok prev_word [] = False"
| "search_boundary tok prev_word (c # cs) =
     ((\<not> prev_word \<and> tok (c # cs)) \<or> search_boundary tok (is_word c) cs)"

definition match_date :: "string \<Rightarrow> bool" where
  "match_date low = search_boundary date_token_here False low"

definition match_relative :: "string \<Rightarrow> bool" where
  "match_relative low = search_boundary relative_token_here False low"

subsection \<open>The page as the script reads it\<close>

text \<open>
  An element reached by \<open>querySelector\<close>: the one attribute the script reads from it
  (\<open>datetime\<close> or \<open>aria-label\<close>; \<open>None\<close> is \<open>null\<close>) and its \<open>innerText\<close>
  (\<open>None\<close> is \<open>undefined\<close>, as for an element that is not an HTML element).
\<close>

record element =
  attribute :: "string option"
  inner_text :: "string option"

text \<open>
  A node of \<open>document.querySelectorAll(...)\<close>, by what the script reads: its own
  \<open>innerText\<close> and the first descendant matching each of the six selectors (\<open>None\<close>
  when \<open>querySelector\<close> returns \<open>null\<close>).
\<close>

record dom_node =
  node_text :: "string option"
  title_el :: "element option"
  body_el :: "element option"
  time_el :: "element option"
  date_el :: "element option"
  rating_el :: "element option"
  reviewer_el :: "element option"

text \<open>\<open>n.innerText || ""\<close>.\<close>

definition txt_of :: "dom_node \<Rightarrow> string" where
  "txt_of n = (case node_text n of None \<Rightarrow> [] | Some s \<Rightarrow> s)"

text \<open>The test of the first loop: a node is a candidate unless one of the two \<open>continue\<close>s fires.\<close>

definition is_candidate :: "dom_node \<Rightarrow> bool" where
  "is_candidate n =
     (let txt = txt_of n in
      if length txt < 50 then False
      else (let low = toLowerCase txt in
            if \<not> (str_includes low ''review'' \<or> str_includes low ''stars'' \<or>
                    match_date low \<or> match_relative low)
            then False
            else True))"

definition candidates_of :: "dom_node list \<Rightarrow> dom_node list" where
  "candidates_of nodes = filter is_candidate nodes"

text \<open>\<open>e.innerText.trim()\<close>: throws (\<open>None\<close>) when \<open>innerText\<close> is undefined.\<close>

definition inner_trim :: "element \<Rightarrow> string option" where
  "inner_trim e = map_option trim (inner_text e)"

text \<open>\<open>e.getAttribute(a) || e.innerText.trim()\<close>.\<close>

definition attr_or_text :: "element \<Rightarrow> string option" where
  "attr_or_text e =
     (case attribute e of
        None \<Rightarrow> inner_trim e
      | Some a \<Rightarrow> if a = [] then inner_trim e else Some a)"

text \<open>\<open>if (x) v = f(x)\<close>, with \<open>v\<close> initialised to the empty string.\<close>

definition opt_field :: "(element \<Rightarrow> string option) \<Rightarrow> element option \<Rightarrow> string option" where
  "opt_field f x = (case x of None \<Rightarrow> Some [] | Some e \<Rightarrow> f e)"

record fields =
  f_title :: string
  f_body :: string
  f_date :: string
  f_rating :: string
  f_reviewer :: string

text \<open>
  Title and body of a candidate. Without a body element the text of the node is split in
  lines, trimmed, the empty ones dropped; with two lines or more the first is the title
  (unless a title was found) and the rest, joined, the body.
\<close>

definition title_body :: "dom_node \<Rightarrow> (string \<times> string) option" where
  "title_body c =
     (case opt_field inner_trim (title_el c) of
        None \<Rightarrow> None
      | Some title \<Rightarrow>
          (case body_el c of
             Some bodyNode \<Rightarrow>
               (case inner_trim bodyNode of
                  None \<Rightarrow> None
                | Some body \<Rightarrow> Some (title, body))
           | None \<Rightarrow>
               (case node_text c of
                  None \<Rightarrow> None
                | Some t \<Rightarrow>
                    (let all = filter (\<lambda>s. s \<noteq> []) (map trim (split_on (CHR 0x0A) (trim t)))
                     in if 2 \<le> length all
                        then Some (if title = [] then hd all else title, join_space (tl all))
                        else Some (title, trim t)))))"

definition extract_fields :: "dom_node \<Rightarrow> fields option" where
  "extract_fields c =
     (case title_body c of
        None \<Rightarrow> None
      | Some (title, body) \<Rightarrow>
          (case opt_field attr_or_text
                  (case time_el c of Some t \<Rightarrow> Some t | None \<Rightarrow> date_el c) of
             None \<Rightarrow> None
           | Some date \<Rightarrow>
               (case opt_field attr_or_text (rating_el c) of
                  None \<Rightarrow> None
                | Some rating \<Rightarrow>
                    (case opt_field inner_trim (reviewer_el c) of
                       None \<Rightarrow> None
                     | Some reviewer \<Rightarrow>
                         Some \<lparr>f_title = title, f_body = body, f_date = date,
                               f_rating = rating, f_reviewer = reviewer\<rparr>))))"

text \<open>\<open>(title + '|' + body.slice(0,80)).slice(0,200)\<close>.\<close>

definition dedup_key :: "string \<Rightarrow> string \<Rightarrow> string" where
  "dedup_key title body = take 200 (title @ ''|'' @ take 80 body)"

definition to_dict :: "fields \<Rightarrow> pydict" where
  "to_dict f =
     [''title'' \<mapsto> PStr (f_title f),
      ''description'' \<mapsto> PStr (f_body f),
      ''date'' \<mapsto> PStr (f_date f),
      ''rating'' \<mapsto> PStr (f_rating f),
      ''reviewer'' \<mapsto> PStr (f_reviewer f)]"

text \<open>
  The second loop of the script, with its \<open>seen\<close> set and its \<open>results\<close> array.
  An exception thrown for one candidate ends the script: \<open>None\<close>.
\<close>

fun map_candidates :: "dom_node list \<Rightarrow> string set \<Rightarrow> pydict list \<Rightarrow> pydict list option" where
  "map_candidates [] seen results = Some results"
| "map_candidates (c # cs) seen results =
     (case extract_fields c of
        None \<Rightarrow> None
      | Some f \<Rightarrow>
          (let key = dedup_key (f_title f) (f_body f) in
           if key \<in> seen then map_candidates cs seen results
           else map_candidates cs (insert key seen) (results @ [to_dict f])))"

definition review_script :: "dom_node list \<Rightarrow> pydict list option" where
  "review_script nodes = map_candidates (candidates_of nodes) {} []"

text \<open>
  \<open>extract_reviews_from_dom\<close>: \<open>page.evaluate(script)\<close> raises when the page cannot run
  the script (\<open>None\<close> for the document) or when the script throws; both are caught and
  give the empty list, as does a falsy result (\<open>extracted or []\<close>).
\<close>

definition extract_reviews_from_dom :: "dom_node list option \<Rightarrow> pydict list" where
  "extract_reviews_from_dom document =
     (case document of
        None \<Rightarrow> []
      | Some nodes \<Rightarrow> (case review_script nodes of None \<Rightarrow> [] | Some extracted \<Rightarrow> extracted))"

section \<open>The incremental collector\<close>

text \<open>
  The page is the browser's, not the program's. What a call on it does is given from
  outside: the call returns, raises Playwright's \<open>TimeoutError\<close>, or raises another
  exception.
\<close>

datatype 'a outcome = Returns 'a | RaisesTimeout | RaisesOther

text \<open>
  What the page does in one iteration of the collector: the document the script runs on
  (\<open>None\<close> when \<open>page.evaluate\<close> itself raises), whether \<open>query_selector\<close> finds a
  "Load more" or "Next" control, the click and its wait, the scroll and its wait, and the
  wait of the \<open>except PWTimeoutError\<close> handler. The duration \<open>wait_ms\<close> is not modelled.
\<close>

record round_env =
  document :: "dom_node list option"
  query_selector :: "bool outcome"
  click_wait :: "unit outcome"
  scroll_wait :: "unit outcome"
  handler_wait :: "unit outcome"

text \<open>A page: what it does in iteration \<open>i\<close>, for every \<open>i\<close> (the content may never end).\<close>

type_synonym page = "nat \<Rightarrow> round_env"

text \<open>The handler of \<open>except PWTimeoutError\<close>: whatever its wait raises is not caught.\<close>

definition timeout_handler :: "round_env \<Rightarrow> error + unit" where
  "timeout_handler env =
     (case handler_wait env of Returns _ \<Rightarrow> Inr () | _ \<Rightarrow> Inl PlaywrightError)"

text \<open>\<open>window.scrollBy\<close> and the wait, inside the outer \<open>try\<close>.\<close>

definition scroll_step :: "round_env \<Rightarrow> error + unit" where
  "scroll_step env =
     (case scroll_wait env of
        Returns _ \<Rightarrow> Inr ()
      | RaisesTimeout \<Rightarrow> timeout_handler env
      | RaisesOther \<Rightarrow> Inl PlaywrightError)"

text \<open>
  The "load more" step: any exception of the click falls back to the scroll; a timeout
  of \<open>query_selector\<close> or of the scroll goes to the handler; any other exception leaves
  the collector.
\<close>

definition advance_page :: "round_env \<Rightarrow> error + unit" where
  "advance_page env =
     (case query_selector env of
        Returns load_more \<Rightarrow>
          (if load_more
           then (case click_wait env of Returns _ \<Rightarrow> Inr () | _ \<Rightarrow> scroll_step env)
           else scroll_step env)
      | RaisesTimeout \<Rightarrow> timeout_handler env
      | RaisesOther \<Rightarrow> Inl PlaywrightError)"

text \<open>
  \<open>r.get('title','') + '|' + (r.get('description','') or "")[:120]\<close>: a title that is
  \<open>None\<close> cannot be concatenated.
\<close>

definition collect_key :: "pydict \<Rightarrow> error + string" where
  "collect_key r =
     (case dict_get r ''title'' (PStr []) of
        PNone \<Rightarrow> Inl TypeError
      | PStr t \<Rightarrow> Inr (t @ ''|'' @ take 120 (or_empty (dict_get r ''description'' (PStr [])))))"

record collector =
  collected :: "pydict list"
  seen_keys :: "string set"
  last_len :: nat

text \<open>The inner loop \<open>for r in found\<close>, with \<open>new_count\<close>.\<close>

fun merge_found ::
  "pydict list \<Rightarrow> pydict list \<Rightarrow> string set \<Rightarrow> nat \<Rightarrow> error + (pydict list \<times> string set \<times> nat)"
where
  "merge_found [] coll seen new_count = Inr (coll, seen, new_count)"
| "merge_found (r # found) coll seen new_count =
     (case collect_key r of
        Inl e \<Rightarrow> Inl e
      | Inr key \<Rightarrow>
          (if key \<notin> seen
           then merge_found found (coll @ [r]) (insert key seen) (new_count + 1)
           else merge_found found coll seen new_count))"

text \<open>
  One iteration of \<open>for i in range(max_scrolls)\<close>: extract, merge, advance the page, test
  for progress. The result tells whether the loop breaks, with the state it leaves.
\<close>

definition collect_round :: "round_env \<Rightarrow> collector \<Rightarrow> error + (bool \<times> collector)" where
  "collect_round env st =
     (case merge_found (extract_reviews_from_dom (document env)) (collected st) (seen_keys st) 0 of
        Inl e \<Rightarrow> Inl e
      | Inr (coll, seen, new_count) \<Rightarrow>
          (case advance_page env of
             Inl e \<Rightarrow> Inl e
           | Inr _ \<Rightarrow>
               (if length coll = last_len st \<and> new_count = 0
                then Inr (True, st\<lparr>collected := coll, seen_keys := seen\<rparr>)
                else Inr (False, \<lparr>collected = coll, seen_keys = seen, last_len = length coll\<rparr>))))"

text \<open>
  The loop, from iteration \<open>i\<close> with \<open>n\<close> iterations left. Beside the result it returns
  the number of iterations started, which the program does not compute: it is there to
  state how long the loop runs.
\<close>

fun collect_loop :: "page \<Rightarrow> nat \<Rightarrow> nat \<Rightarrow> collector \<Rightarrow> nat \<times> (error + collector)" where
  "collect_loop pg i 0 st = (i, Inr st)"
| "collect_loop pg i (Suc n) st =
     (case collect_round (pg i) st of
        Inl e \<Rightarrow> (Suc i, Inl e)
      | Inr (stop, st') \<Rightarrow> if stop then (Suc i, Inr st') else collect_loop pg (Suc i) n st')"

definition collector_init :: collector where
  "collector_init = \<lparr>collected = [], seen_keys = {}, last_len = 0\<rparr>"

text \<open>\<open>range(max_scrolls)\<close> is empty for a negative \<open>max_scrolls\<close>.\<close>

definition scroll_and_collect_run :: "page \<Rightarrow> int \<Rightarrow> nat \<times> (error + collector)" where
  "scroll_and_collect_run pg max_scrolls = collect_loop pg 0 (nat max_scrolls) collector_init"

definition scroll_and_collect :: "page \<Rightarrow> int \<Rightarrow> error + pydict list" where
  "scroll_and_collect pg max_scrolls =
     (case snd (scroll_and_collect_run pg max_scrolls) of
        Inl e \<Rightarrow> Inl e
      | Inr st \<Rightarrow> Inr (collected st))"

section \<open>Source adapters\<close>

text \<open>
  The browser as the adapters use it: \<open>page.goto(url)\<close> raises (\<open>None\<close>) or loads a page.
  \<open>starts\<close> and \<open>closes\<close> are the launch of the browser and its shutdown, used by the
  orchestrator.
\<close>

record browser =
  starts :: bool
  goto :: "string \<Rightarrow> page option"
  closes :: bool

text \<open>
  The dict literal \<open>r_copy\<close>, the same in the three adapters but for the value of
  \<open>source\<close>. \<open>dt\<close> is the parsed date, if any.
\<close>

definition review_copy :: "'d datelib \<Rightarrow> string \<Rightarrow> 'd option \<Rightarrow> pydict \<Rightarrow> pydict" where
  "review_copy lib source dt r =
     [''title'' \<mapsto> PStr (or_empty (dict_get r ''title'' PNone)),
      ''description'' \<mapsto> PStr (or_empty (dict_get r ''description'' PNone)),
      ''date'' \<mapsto> PStr (case dt of Some d \<Rightarrow> iso lib d
                                | None \<Rightarrow> raw_date r),
      ''rating'' \<mapsto> PStr (or_empty (dict_get r ''rating'' PNone)),
      ''reviewer'' \<mapsto> PStr (or_empty (dict_get r ''reviewer'' PNone)),
      ''source'' \<mapsto> PStr source]"

subsection \<open>G2\<close>

definition g2_url :: "string \<Rightarrow> string" where
  "g2_url company_slug = ''https://www.g2.com/products/'' @ company_slug @ ''/reviews''"

text \<open>
  \<open>parse_date_safe(date_candidate) or parse_date_safe(r.get('description','')[:50])\<close>:
  the description is read only when the date field does not parse, and slicing \<open>None\<close>
  raises.
\<close>

definition g2_resolve_date :: "'d datelib \<Rightarrow> pydict \<Rightarrow> error + 'd option" where
  "g2_resolve_date lib r =
     (let date_candidate = raw_date r in
      case parse_date_safe lib date_candidate of
        Some dt \<Rightarrow> Inr (Some dt)
      | None \<Rightarrow>
          (case dict_get r ''description'' (PStr []) of
             PNone \<Rightarrow> Inl TypeError
           | PStr description \<Rightarrow> Inr (parse_date_safe lib (take 50 description))))"

text \<open>The first loop of \<open>scrape_g2\<close>, building \<open>normalized\<close>.\<close>

fun g2_normalize ::
  "'d datelib \<Rightarrow> 'd \<Rightarrow> 'd \<Rightarrow> pydict list \<Rightarrow> pydict list \<Rightarrow> error + pydict list"
where
  "g2_normalize lib start end_d [] normalized = Inr normalized"
| "g2_normalize lib start end_d (r # rs) normalized =
     (case g2_resolve_date lib r of
        Inl e \<Rightarrow> Inl e
      | Inr None \<Rightarrow>
          g2_normalize lib start end_d rs (normalized @ [review_copy lib ''G2'' None r])
      | Inr (Some dt) \<Rightarrow>
          (case within_range lib dt start end_d of
             Inl e \<Rightarrow> Inl e
           | Inr inside \<Rightarrow>
               (if inside
                then g2_normalize lib start end_d rs
                       (normalized @ [review_copy lib ''G2'' (Some dt) r])
                else g2_normalize lib start end_d rs normalized)))"

text \<open>The second loop of \<open>scrape_g2\<close>, building \<open>filtered\<close> from \<open>normalized\<close>.\<close>

fun g2_final_filter ::
  "'d datelib \<Rightarrow> 'd \<Rightarrow> 'd \<Rightarrow> pydict list \<Rightarrow> pydict list \<Rightarrow> error + pydict list"
where
  "g2_final_filter lib start end_d [] filtered = Inr filtered"
| "g2_final_filter lib start end_d (r # rs) filtered =
     (let date = raw_date r in
      if date \<noteq> []
      then (case parse_date_safe lib date of
              None \<Rightarrow> g2_final_filter lib start end_d rs (filtered @ [r])
            | Some p \<Rightarrow>
                (case within_range lib p start end_d of
                   Inl e \<Rightarrow> Inl e
                 | Inr inside \<Rightarrow>
                     (if inside then g2_final_filter lib start end_d rs (filtered @ [r])
                      else g2_final_filter lib start end_d rs filtered)))
      else g2_final_filter lib start end_d rs (filtered @ [r]))"

text \<open>The two loops in sequence: what \<open>scrape_g2\<close> does with \<open>all_reviews\<close>.\<close>

definition g2_filter :: "'d datelib \<Rightarrow> 'd \<Rightarrow> 'd \<Rightarrow> pydict list \<Rightarrow> error + pydict list" where
  "g2_filter lib start end_d all_reviews =
     (case g2_normalize lib start end_d all_reviews [] of
        Inl e \<Rightarrow> Inl e
      | Inr normalized \<Rightarrow> g2_final_filter lib start end_d normalized [])"

definition scrape_g2 ::
  "'d datelib \<Rightarrow> browser \<Rightarrow> string \<Rightarrow> 'd \<Rightarrow> 'd \<Rightarrow> error + pydict list"
where
  "scrape_g2 lib br company_slug start end_d =
     (case goto br (g2_url company_slug) of
        None \<Rightarrow> Inl (RuntimeError ''Could not open G2 page'')
      | Some pg \<Rightarrow>
          (case scroll_and_collect pg 40 of
             Inl e \<Rightarrow> Inl e
           | Inr all_reviews \<Rightarrow> g2_filter lib start end_d all_reviews))"

subsection \<open>Capterra and TrustRadius\<close>

text \<open>
  The loop of \<open>scrape_capterra\<close> and of \<open>scrape_trustradius\<close>, the same text in both but for
  the source tag: the date field alone is parsed; a parsed date out of the range skips the
  record, no parsed date keeps it.
\<close>

fun normalize_reviews ::
  "'d datelib \<Rightarrow> string \<Rightarrow> 'd \<Rightarrow> 'd \<Rightarrow> pydict list \<Rightarrow> pydict list \<Rightarrow> error + pydict list"
where
  "normalize_reviews lib source start end_d [] normalized = Inr normalized"
| "normalize_reviews lib source start end_d (r # rs) normalized =
     (let dt = parse_date_safe lib (raw_date r);
          r_copy = review_copy lib source dt r
      in case dt of
           Some d \<Rightarrow>
             (case within_range lib d start end_d of
                Inl e \<Rightarrow> Inl e
              | Inr inside \<Rightarrow>
                  (if inside
                   then normalize_reviews lib source start end_d rs (normalized @ [r_copy])
                   else normalize_reviews lib source start end_d rs normalized))
         | None \<Rightarrow> normalize_reviews lib source start end_d rs (normalized @ [r_copy]))"

definition capterra_urls :: "string \<Rightarrow> string list" where
  "capterra_urls company_slug =
     [''https://www.capterra.com/p/'' @ company_slug @ ''/reviews/'',
      ''https://www.capterra.com/search?q='' @ company_slug,
      ''https://www.capterra.com/p/'' @ company_slug @ ''/'']"

text \<open>\<open>for u in url_variants\<close>: the first URL that \<open>goto\<close> opens.\<close>

fun try_urls :: "browser \<Rightarrow> string list \<Rightarrow> page option" where
  "try_urls br [] = None"
| "try_urls br (u # us) = (case goto br u of Some pg \<Rightarrow> Some pg | None \<Rightarrow> try_urls br us)"

definition scrape_capterra ::
  "'d datelib \<Rightarrow> browser \<Rightarrow> string \<Rightarrow> 'd \<Rightarrow> 'd \<Rightarrow> error + pydict list"
where
  "scrape_capterra lib br company_slug start end_d =
     (case try_urls br (capterra_urls company_slug) of
        None \<Rightarrow> Inl (RuntimeError ''Could not open Capterra page for provided slug. Please verify company slug.'')
      | Some pg \<Rightarrow>
          (case scroll_and_collect pg 40 of
             Inl e \<Rightarrow> Inl e
           | Inr all_reviews \<Rightarrow> normalize_reviews lib ''Capterra'' start end_d all_reviews []))"

definition trustradius_url :: "string \<Rightarrow> string" where
  "trustradius_url company_slug =
     ''https://www.trustradius.com/products/'' @ company_slug @ ''/reviews''"

definition scrape_trustradius ::
  "'d datelib \<Rightarrow> browser \<Rightarrow> string \<Rightarrow> 'd \<Rightarrow> 'd \<Rightarrow> error + pydict list"
where
  "scrape_trustradius lib br company_slug start end_d =
     (case goto br (trustradius_url company_slug) of
        None \<Rightarrow> Inl (RuntimeError ''Could not open TrustRadius page'')
      | Some pg \<Rightarrow>
          (case scroll_and_collect pg 40 of
             Inl e \<Rightarrow> Inl e
           | Inr all_reviews \<Rightarrow> normalize_reviews lib ''TrustRadius'' start end_d all_reviews []))"

section \<open>The orchestrator\<close>

subsection \<open>The file system\<close>

text \<open>
  A path is the tuple of its parts, as \<open>pathlib\<close> has it: \<open>[]\<close> is the current directory,
  an absolute path starts with its root. Symbolic links and the meaning of \<open>..\<close> are not
  modelled: a part is a name. A file holds the list that \<open>json.dump\<close> wrote.
\<close>

datatype fs_entry = Dir | File "pydict list"

type_synonym path = "string list"

type_synonym filesystem = "path \<rightharpoonup> fs_entry"

definition path_root :: "string \<Rightarrow> string list" where
  "path_root s =
     (if prefix ''//'' s \<and> \<not> prefix ''///'' s then [''//'']
      else if prefix ''/'' s then [''/'']
      else [])"

text \<open>\<open>Path(s).parts\<close>: empty pieces and \<open>.\<close> are dropped.\<close>

definition path_parts :: "string \<Rightarrow> path" where
  "path_parts s = path_root s @ filter (\<lambda>c. c \<noteq> [] \<and> c \<noteq> ''.'') (split_on (CHR ''/'') s)"

text \<open>\<open>p / name\<close>: an absolute right operand replaces the left one.\<close>

definition path_join :: "path \<Rightarrow> string \<Rightarrow> path" where
  "path_join p name = (if path_root name \<noteq> [] then path_parts name else p @ path_parts name)"

text \<open>The current directory and the roots are directories of every file system.\<close>

definition is_anchor :: "path \<Rightarrow> bool" where
  "is_anchor p = (p = [] \<or> p = [''/''] \<or> p = [''//''])"

definition fs_lookup :: "filesystem \<Rightarrow> path \<Rightarrow> fs_entry option" where
  "fs_lookup fs p = (if is_anchor p then Some Dir else fs p)"

definition parent :: "path \<Rightarrow> path" where
  "parent p = (if is_anchor p then p else butlast p)"

definition is_dir :: "filesystem \<Rightarrow> path \<Rightarrow> bool" where
  "is_dir fs p = (fs_lookup fs p = Some Dir)"

text \<open>\<open>os.mkdir\<close>: the parent is resolved first, then the name must be free.\<close>

definition os_mkdir :: "filesystem \<Rightarrow> path \<Rightarrow> error + filesystem" where
  "os_mkdir fs p =
     (case fs_lookup fs (parent p) of
        None \<Rightarrow> Inl FileNotFoundError
      | Some (File _) \<Rightarrow> Inl NotADirectoryError
      | Some Dir \<Rightarrow>
          (case fs_lookup fs p of
             Some _ \<Rightarrow> Inl FileExistsError
           | None \<Rightarrow> Inr (fs(p \<mapsto> Dir))))"

text \<open>
  \<open>Path.mkdir(parents=False, exist_ok=...)\<close>: a missing parent is an error; any other
  error of \<open>os.mkdir\<close> is dropped when \<open>exist_ok\<close> is set and the path is a directory.
\<close>

definition mkdir_no_parents :: "bool \<Rightarrow> filesystem \<Rightarrow> path \<Rightarrow> error + filesystem" where
  "mkdir_no_parents exist_ok fs p =
     (case os_mkdir fs p of
        Inr fs' \<Rightarrow> Inr fs'
      | Inl e \<Rightarrow>
          (if e = FileNotFoundError then Inl e
           else if \<not> exist_ok \<or> \<not> is_dir fs p then Inl e
           else Inr fs))"

text \<open>
  \<open>Path.mkdir(parents=True, exist_ok=...)\<close>: on a missing parent, the parent is made with
  \<open>parents=True, exist_ok=True\<close>, then the path itself without \<open>parents\<close>.
\<close>

function mkdir_parents :: "bool \<Rightarrow> filesystem \<Rightarrow> path \<Rightarrow> error + filesystem" where
  "mkdir_parents exist_ok fs p =
     (case os_mkdir fs p of
        Inr fs' \<Rightarrow> Inr fs'
      | Inl e \<Rightarrow>
          (if e = FileNotFoundError
           then (if parent p = p then Inl e
                 else (case mkdir_parents True fs (parent p) of
                         Inl e' \<Rightarrow> Inl e'
                       | Inr fs' \<Rightarrow> mkdir_no_parents exist_ok fs' p))
           else if \<not> exist_ok \<or> \<not> is_dir fs p then Inl e
           else Inr fs))"
  by pat_completeness auto
termination
  by (relation "measure (\<lambda>(exist_ok, fs, p). length p)")
     (auto simp: parent_def is_anchor_def split: if_splits)

definition path_mkdir :: "bool \<Rightarrow> bool \<Rightarrow> filesystem \<Rightarrow> path \<Rightarrow> error + filesystem" where
  "path_mkdir parents exist_ok fs p =
     (if parents then mkdir_parents exist_ok fs p else mkdir_no_parents exist_ok fs p)"

text \<open>\<open>open(p, "w")\<close> followed by \<open>json.dump\<close>: the file is created or replaced.\<close>

definition open_write :: "filesystem \<Rightarrow> path \<Rightarrow> pydict list \<Rightarrow> error + filesystem" where
  "open_write fs p content =
     (case fs_lookup fs (parent p) of
        None \<Rightarrow> Inl FileNotFoundError
      | Some (File _) \<Rightarrow> Inl NotADirectoryError
      | Some Dir \<Rightarrow>
          (case fs_lookup fs p of
             Some Dir \<Rightarrow> Inl IsADirectoryError
           | _ \<Rightarrow> Inr (fs(p \<mapsto> File content))))"

text \<open>
  A file system is well formed when every entry lies in a directory, as on a real
  file system.
\<close>

definition wf_fs :: "filesystem \<Rightarrow> bool" where
  "wf_fs fs = (\<forall>p. fs p \<noteq> None \<longrightarrow> is_dir fs (parent p))"

subsection \<open>\<open>run_scraper\<close>\<close>

text \<open>\<open>source.lower()\<close>.\<close>

definition str_lower :: "string \<Rightarrow> string" where
  "str_lower s = map lower_char s"

text \<open>The \<open>if / elif / else\<close> that picks the adapter.\<close>

definition dispatch ::
  "'d datelib \<Rightarrow> browser \<Rightarrow> string \<Rightarrow> 'd \<Rightarrow> 'd \<Rightarrow> string \<Rightarrow> error + pydict list"
where
  "dispatch lib br company start end_d source_lower =
     (if source_lower = ''g2'' then scrape_g2 lib br company start end_d
      else if source_lower = ''capterra'' then scrape_capterra lib br company start end_d
      else if source_lower \<in> {''trustradius'', ''trust radius'', ''trust-radius''}
      then scrape_trustradius lib br company start end_d
      else Inl (ValueError ''Unsupported source. Choose 'g2', 'capterra' or 'trustradius'.''))"

definition output_name :: "'d datelib \<Rightarrow> string \<Rightarrow> string \<Rightarrow> 'd \<Rightarrow> 'd \<Rightarrow> string" where
  "output_name lib company source_lower start end_d =
     company @ ''_'' @ source_lower @ ''_'' @ strftime lib start ''%Y%m%d'' @ ''_to_'' @
     strftime lib end_d ''%Y%m%d'' @ ''.json''"

text \<open>The part after the browser is closed: make the directory, write the file.\<close>

definition save_json ::
  "filesystem \<Rightarrow> string \<Rightarrow> string \<Rightarrow> pydict list \<Rightarrow> filesystem \<times> (error + (path \<times> pydict list))"
where
  "save_json fs outdir fname reviews =
     (let outdir_p = path_parts outdir in
      case path_mkdir True True fs outdir_p of
        Inl e \<Rightarrow> (fs, Inl e)
      | Inr fs1 \<Rightarrow>
          (let outpath = path_join outdir_p fname in
           case open_write fs1 outpath reviews of
             Inl e \<Rightarrow> (fs1, Inl e)
           | Inr fs2 \<Rightarrow> (fs2, Inr (outpath, reviews))))"

text \<open>
  \<open>run_scraper\<close> returns the file system it leaves and either the exception that
  escapes or \<open>(outpath, reviews)\<close>.
\<close>

definition run_scraper ::
  "'d datelib \<Rightarrow> browser \<Rightarrow> filesystem \<Rightarrow> string \<Rightarrow> string \<Rightarrow> string \<Rightarrow> string \<Rightarrow> string \<Rightarrow>
     filesystem \<times> (error + (path \<times> pydict list))"
where
  "run_scraper lib br fs company start_date end_date source outdir =
     (case dateutil_parse lib start_date of
        None \<Rightarrow> (fs, Inl (ValueError ''Invalid date(s)''))
      | Some start \<Rightarrow>
          (case dateutil_parse lib end_date of
             None \<Rightarrow> (fs, Inl (ValueError ''Invalid date(s)''))
           | Some end_d \<Rightarrow>
               (case dt_gt lib start end_d of
                  None \<Rightarrow> (fs, Inl TypeError)
                | Some later \<Rightarrow>
                    (if later then (fs, Inl (ValueError ''Start date must be <= end date.''))
                     else if \<not> starts br then (fs, Inl PlaywrightError)
                     else (let source_lower = str_lower source in
                           case dispatch lib br company start end_d source_lower of
                             Inl e \<Rightarrow> (fs, Inl e)
                           | Inr reviews \<Rightarrow>
                               (if \<not> closes br then (fs, Inl PlaywrightError)
                                else save_json fs outdir
                                       (output_name lib company source_lower start end_d)
                                       reviews))))))"

subsection \<open>The command line\<close>

text \<open>
  The command line as \<open>argparse\<close> reads it: the value given to each option, \<open>None\<close> for an
  option that is absent. \<open>parse_args\<close> ends the process with status 2 when a required
  option is missing or when \<open>--source\<close> is not one of its \<open>choices\<close>.
\<close>

record command_line =
  opt_company :: "string option"
  opt_start :: "string option"
  opt_end :: "string option"
  opt_source :: "string option"
  opt_outdir :: "string option"

record args =
  arg_company :: string
  arg_start :: string
  arg_end :: string
  arg_source :: string
  arg_outdir :: string

definition source_choices :: "string list" where
  "source_choices = [''g2'', ''capterra'', ''trustradius'']"

definition parse_args :: "command_line \<Rightarrow> nat + args" where
  "parse_args cl =
     (case (opt_company cl, opt_start cl, opt_end cl, opt_source cl) of
        (Some c, Some s, Some e, Some src) \<Rightarrow>
          (if src \<in> set source_choices
           then Inr \<lparr>arg_company = c, arg_start = s, arg_end = e, arg_source = src,
                     arg_outdir = (case opt_outdir cl of None \<Rightarrow> ''.'' | Some d \<Rightarrow> d)\<rparr>
           else Inl 2)
      | _ \<Rightarrow> Inl 2)"

text \<open>\<open>main\<close>: the exit status of the process and the file system it leaves.\<close>

definition main :: "'d datelib \<Rightarrow> browser \<Rightarrow> filesystem \<Rightarrow> command_line \<Rightarrow> nat \<times> filesystem" where
  "main lib br fs cl =
     (case parse_args cl of
        Inl status \<Rightarrow> (status, fs)
      | Inr a \<Rightarrow>
          (case run_scraper lib br fs (arg_company a) (arg_start a) (arg_end a)
                  (arg_source a) (arg_outdir a) of
             (fs', Inl e) \<Rightarrow> (1, fs')
           | (fs', Inr _) \<Rightarrow> (0, fs')))"

section \<open>Example inputs\<close>

text \<open>
  A small date library for the examples: a date is its own \<open>YYYY-MM-DD\<close> string, only
  such strings parse, and dates compare by their digits read as a number.
\<close>

definition iso_number :: "string \<Rightarrow> nat" where
  "iso_number s = foldl (\<lambda>n c. 10 * n + (of_char c - 48)) 0 (filter is_digit s)"

definition example_parse :: "string \<Rightarrow> string option" where
  "example_parse s = (if length s = 10 \<and> date_token_here s then Some s else None)"

definition example_lib :: "string datelib" where
  "example_lib =
     \<lparr>dateutil_parse = example_parse,
      dt_le = (\<lambda>a b. Some (iso_number a \<le> iso_number b)),
      dt_gt = (\<lambda>a b. Some (iso_number b < iso_number a)),
      strftime = (\<lambda>d fmt. if fmt = ''%Y-%m-%d'' then d else filter is_digit d)\<rparr>"

definition text_element :: "string \<Rightarrow> element" where
  "text_element s = \<lparr>attribute = None, inner_text = Some s\<rparr>"

text \<open>A review card with a heading, a paragraph, a \<open>time\<close> element and a star rating.\<close>

definition review_node :: "string \<Rightarrow> string \<Rightarrow> dom_node" where
  "review_node title date =
     \<lparr>node_text = Some ''A review long enough to count as a candidate node.'',
      title_el = Some (text_element title),
      body_el = Some (text_element ''A review long enough to count as a candidate node.''),
      time_el = Some \<lparr>attribute = Some date, inner_text = Some []\<rparr>,
      date_el = None,
      rating_el = Some \<lparr>attribute = Some ''5 stars'', inner_text = None\<rparr>,
      reviewer_el = None\<rparr>"

text \<open>A node with 49 characters of text, one short of the size test.\<close>

definition short_node :: dom_node where
  "short_node =
     \<lparr>node_text = Some ''A review of 49 characters, too short to be taken.'',
      title_el = Some (text_element ''Short''),
      body_el = None, time_el = None, date_el = None, rating_el = None, reviewer_el = None\<rparr>"

text \<open>A page whose document never changes and that has no "Load more" control.\<close>

definition static_page :: "dom_node list \<Rightarrow> page" where
  "static_page nodes =
     (\<lambda>i. \<lparr>document = Some nodes, query_selector = Returns False, click_wait = Returns (),
            scroll_wait = Returns (), handler_wait = Returns ()\<rparr>)"

definition example_browser :: "dom_node list \<Rightarrow> browser" where
  "example_browser nodes =
     \<lparr>starts = True, goto = (\<lambda>url. Some (static_page nodes)), closes = True\<rparr>"

definition three_nodes :: "dom_node list" where
  "three_nodes =
     [review_node ''Great'' ''2024-03-15'', review_node ''Old'' ''2023-12-31'',
      review_node ''Vague'' ''3 months ago'']"

text \<open>A page that shows one more of the three review cards after every scroll.\<close>

definition growing_page :: page where
  "growing_page = (\<lambda>i. static_page (take (Suc i) three_nodes) i)"

text \<open>The record that the script extracts from \<open>review_node title date\<close>.\<close>

definition example_record :: "string \<Rightarrow> string \<Rightarrow> pydict" where
  "example_record title date =
     to_dict \<lparr>f_title = title, f_body = ''A review long enough to count as a candidate node.'',
              f_date = date, f_rating = ''5 stars'', f_reviewer = []\<rparr>"

text \<open>
  A record as the adapters guard against: the title is \<open>None\<close>, and there is no
  description, date or reviewer.
\<close>

definition sparse_record :: pydict where
  "sparse_record = [''title'' \<mapsto> PNone, ''rating'' \<mapsto> PStr ''5 stars'']"

section \<open>The range filter as the specification words it\<close>

text \<open>
  The specification's filter for Capterra and TrustRadius, to be compared with the loop of
  the adapters: a record whose date field parses to \<open>d\<close> survives if and only if
  \<open>start <= d <= end\<close>, that is, the comparison of the date library says that
  \<open>start <= d\<close> holds and that \<open>d <= end\<close> holds; a record whose date field does
  not parse always survives.
\<close>

definition spec_survives :: "'d datelib \<Rightarrow> 'd \<Rightarrow> 'd \<Rightarrow> pydict \<Rightarrow> bool" where
  "spec_survives lib start end_d r =
     (case parse_date_safe lib (raw_date r) of
        None \<Rightarrow> True
      | Some d \<Rightarrow> dt_le lib start d = Some True \<and> dt_le lib d end_d = Some True)"

section \<open>Deduplication as the specification words it\<close>

text \<open>The key of the record that the script builds from the fields of a candidate.\<close>

definition fields_key :: "fields \<Rightarrow> string" where
  "fields_key f = dedup_key (f_title f) (f_body f)"

text \<open>
  The specification's deduplication, to be compared with the second loop of the script:
  of the elements with the same key only the first one seen stays.
\<close>

fun spec_first_seen :: "('a \<Rightarrow> 'k) \<Rightarrow> 'k set \<Rightarrow> 'a list \<Rightarrow> 'a list" where
  "spec_first_seen key seen [] = []"
| "spec_first_seen key seen (x # xs) =
     (if key x \<in> seen then spec_first_seen key seen xs
      else x # spec_first_seen key (insert (key x) seen) xs)"

section \<open>The example inputs, evaluated\<close>

lemmas js_defs = js_space_def is_digit_def is_word_def trim_def lower_char_def toLowerCase_def
  boundary_next_def date_token_here_def unit_here_def space_unit_here_def relative_token_here_def
  match_date_def match_relative_def

lemma review_node_candidate: "is_candidate (review_node t d)"
  by (simp add: is_candidate_def review_node_def txt_of_def js_defs Let_def)

lemma review_node_fields:
  "extract_fields (review_node t d) =
     Some \<lparr>f_title = trim t, f_body = ''A review long enough to count as a candidate node.'',
           f_date = d, f_rating = ''5 stars'', f_reviewer = []\<rparr>"
  by (simp add: extract_fields_def title_body_def review_node_def text_element_def opt_field_def
        inner_trim_def attr_or_text_def js_space_def trim_def)

lemma three_nodes_script:
  "review_script three_nodes =
     Some [example_record ''Great'' ''2024-03-15'', example_record ''Old'' ''2023-12-31'',
           example_record ''Vague'' ''3 months ago'']"
  by (simp add: review_script_def candidates_of_def three_nodes_def review_node_candidate
        review_node_fields dedup_key_def js_space_def trim_def example_record_def)

lemma collect_loop_step:
  "0 < n \<Longrightarrow>
   collect_loop pg i n st =
     (case collect_round (pg i) st of
        Inl e \<Rightarrow> (Suc i, Inl e)
      | Inr (stop, st') \<Rightarrow>
          if stop then (Suc i, Inr st') else collect_loop pg (Suc i) (n - 1) st')"
  by (cases n) (simp_all split: sum.splits prod.splits)

lemma example_record_key:
  "collect_key (example_record t d) =
     Inr (t @ ''|A review long enough to count as a candidate node.'')"
  by (simp add: collect_key_def example_record_def to_dict_def dict_get_def)

lemma advance_static: "advance_page (static_page nodes i) = Inr ()"
  by (simp add: advance_page_def static_page_def scroll_step_def)

lemma document_static: "document (static_page nodes i) = Some nodes"
  by (simp add: static_page_def)

lemma three_nodes_run:
  "scroll_and_collect_run (static_page three_nodes) 40 =
     (2, Inr \<lparr>collected = [example_record ''Great'' ''2024-03-15'', example_record ''Old'' ''2023-12-31'',
           example_record ''Vague'' ''3 months ago''],
         seen_keys = {''Vague|A review long enough to count as a candidate node.'',
                      ''Old|A review long enough to count as a candidate node.'',
                      ''Great|A review long enough to count as a candidate node.''},
         last_len = 3\<rparr>)"
  by (simp add: scroll_and_collect_run_def collector_init_def collect_loop_step collect_round_def
        document_static advance_static extract_reviews_from_dom_def three_nodes_script
        example_record_key)

lemma three_nodes_collected:
  "scroll_and_collect (static_page three_nodes) 40 =
     Inr [example_record ''Great'' ''2024-03-15'', example_record ''Old'' ''2023-12-31'',
          example_record ''Vague'' ''3 months ago'']"
  by (simp add: scroll_and_collect_def three_nodes_run)

lemma example_record_date: "raw_date (example_record t d) = d"
  by (simp add: raw_date_def example_record_def to_dict_def dict_get_def)

lemma example_dates:
  "parse_date_safe example_lib ''2024-03-15'' = Some ''2024-03-15''"
  "parse_date_safe example_lib ''2023-12-31'' = Some ''2023-12-31''"
  "parse_date_safe example_lib ''3 months ago'' = None"
  "parse_date_safe example_lib ''A review long enough to count as a candidate node.'' = None"
  by (simp_all add: parse_date_safe_def example_lib_def example_parse_def date_token_here_def
        is_digit_def boundary_next_def)

lemma example_ranges:
  "within_range example_lib ''2024-03-15'' ''2024-01-01'' ''2024-06-30'' = Inr True"
  "within_range example_lib ''2023-12-31'' ''2024-01-01'' ''2024-06-30'' = Inr False"
  by (simp_all add: within_range_def example_lib_def iso_number_def is_digit_def)

lemma example_le:
  "dt_le example_lib ''2024-01-01'' ''2024-03-15'' = Some True"
  "dt_le example_lib ''2024-03-15'' ''2024-06-30'' = Some True"
  "dt_le example_lib ''2024-01-01'' ''2023-12-31'' = Some False"
  by (simp_all add: example_lib_def iso_number_def is_digit_def)

section \<open>Properties of the extraction script\<close>

lemma candidate_long: "is_candidate n \<Longrightarrow> 50 \<le> length (txt_of n)"
  by (simp add: is_candidate_def Let_def split: if_splits)

lemma candidates_of_short:
  "length (txt_of n) < 50 \<Longrightarrow> candidates_of (before @ n # after) = candidates_of (before @ after)"
  by (auto simp: candidates_of_def dest: candidate_long)

text \<open>
  C7. A node with fewer than 50 characters of visible text (49 or fewer) never contributes
  to the output of the extractor: the script and \<open>extract_reviews_from_dom\<close> return the
  same with the node and without it, and every candidate has at least 50 characters.
\<close>

theorem short_nodes_never_extracted:
  "(length (txt_of n) < 50 \<longrightarrow>
      review_script (before @ n # after) = review_script (before @ after) \<and>
      extract_reviews_from_dom (Some (before @ n # after)) =
        extract_reviews_from_dom (Some (before @ after))) \<and>
   (\<forall>c \<in> set (candidates_of nodes). 50 \<le> length (txt_of c))"
  by (simp add: review_script_def extract_reviews_from_dom_def candidates_of_short)
     (simp add: candidates_of_def candidate_long)

lemma short_node_length: "length (txt_of short_node) = 49"
  by (simp add: short_node_def txt_of_def)

lemma two_nodes_script:
  "review_script [review_node ''Great'' ''2024-03-15'', review_node ''Old'' ''2023-12-31''] =
     Some [example_record ''Great'' ''2024-03-15'', example_record ''Old'' ''2023-12-31'']"
  by (simp add: review_script_def candidates_of_def review_node_candidate
        review_node_fields dedup_key_def js_space_def trim_def example_record_def)

theorem short_nodes_never_extracted_witness:
  "length (txt_of short_node) = 49 \<and>
   review_script ([review_node ''Great'' ''2024-03-15''] @ short_node # [review_node ''Old'' ''2023-12-31'']) =
     Some [example_record ''Great'' ''2024-03-15'', example_record ''Old'' ''2023-12-31''] \<and>
   extract_reviews_from_dom
     (Some ([review_node ''Great'' ''2024-03-15''] @ short_node # [review_node ''Old'' ''2023-12-31''])) =
     [example_record ''Great'' ''2024-03-15'', example_record ''Old'' ''2023-12-31''] \<and>
   50 \<le> length (txt_of (review_node ''Great'' ''2024-03-15''))"
proof -
  note short = short_nodes_never_extracted
    [of short_node "[review_node ''Great'' ''2024-03-15'']" "[review_node ''Old'' ''2023-12-31'']"
        "[review_node ''Great'' ''2024-03-15'']"]
  have len: "length (txt_of short_node) < 50" by (simp add: short_node_length)
  from mp [OF short [THEN conjunct1] len]
  have s: "review_script ([review_node ''Great'' ''2024-03-15''] @ short_node # [review_node ''Old'' ''2023-12-31'']) =
     Some [example_record ''Great'' ''2024-03-15'', example_record ''Old'' ''2023-12-31'']"
    and e: "extract_reviews_from_dom
     (Some ([review_node ''Great'' ''2024-03-15''] @ short_node # [review_node ''Old'' ''2023-12-31''])) =
     [example_record ''Great'' ''2024-03-15'', example_record ''Old'' ''2023-12-31'']"
    by (simp_all add: two_nodes_script extract_reviews_from_dom_def)
  have "review_node ''Great'' ''2024-03-15'' \<in> set (candidates_of [review_node ''Great'' ''2024-03-15''])"
    by (simp add: candidates_of_def review_node_candidate)
  with short [THEN conjunct2]
  have c: "50 \<le> length (txt_of (review_node ''Great'' ''2024-03-15''))" by (rule bspec)
  from short_node_length s e c show ?thesis by (intro conjI)
qed

lemma spec_first_seen_subseq: "subseq (spec_first_seen key seen xs) xs"
  by (induction xs arbitrary: seen) auto

lemma spec_first_seen_keys:
  "set (map key (spec_first_seen key seen xs)) = key ` set xs - seen"
  by (induction xs arbitrary: seen) auto

lemma spec_first_seen_distinct: "distinct (map key (spec_first_seen key seen xs))"
  by (induction xs arbitrary: seen) (auto simp: spec_first_seen_keys [simplified])

lemma spec_first_seen_first:
  "x \<in> set (spec_first_seen key seen xs) \<Longrightarrow>
   key x \<notin> seen \<and> find (\<lambda>y. key y = key x) xs = Some x"
proof (induction xs arbitrary: seen)
  case Nil
  then show ?case by simp
next
  case (Cons a xs)
  show ?case
  proof (cases "key a \<in> seen")
    case True
    with Cons.prems have "x \<in> set (spec_first_seen key seen xs)" by simp
    from Cons.IH [OF this] True show ?thesis by auto
  next
    case False
    show ?thesis
    proof (cases "x = a")
      case True
      with False show ?thesis by simp
    next
      case ne: False
      with False Cons.prems have "x \<in> set (spec_first_seen key (insert (key a) seen) xs)" by simp
      from Cons.IH [OF this] show ?thesis by auto
    qed
  qed
qed

lemma map_candidates_spec:
  "map_candidates cs seen results = Some out \<Longrightarrow>
   \<exists>fs. map extract_fields cs = map Some fs \<and>
        out = results @ map to_dict (spec_first_seen fields_key seen fs)"
proof (induction cs arbitrary: seen results)
  case Nil
  then show ?case by simp
next
  case (Cons c cs)
  from Cons.prems obtain f where f: "extract_fields c = Some f"
    by (cases "extract_fields c") simp_all
  show ?case
  proof (cases "fields_key f \<in> seen")
    case True
    with Cons.prems f have "map_candidates cs seen results = Some out"
      by (simp add: fields_key_def)
    from Cons.IH [OF this] obtain fs where
      "map extract_fields cs = map Some fs"
      "out = results @ map to_dict (spec_first_seen fields_key seen fs)"
      by blast
    with f True have "map extract_fields (c # cs) = map Some (f # fs) \<and>
        out = results @ map to_dict (spec_first_seen fields_key seen (f # fs))"
      by simp
    then show ?thesis by blast
  next
    case False
    with Cons.prems f
    have "map_candidates cs (insert (fields_key f) seen) (results @ [to_dict f]) = Some out"
      by (simp add: fields_key_def)
    from Cons.IH [OF this] obtain fs where
      "map extract_fields cs = map Some fs"
      "out = (results @ [to_dict f]) @ map to_dict (spec_first_seen fields_key (insert (fields_key f) seen) fs)"
      by blast
    with f False have "map extract_fields (c # cs) = map Some (f # fs) \<and>
        out = results @ map to_dict (spec_first_seen fields_key seen (f # fs))"
      by simp
    then show ?thesis by blast
  qed
qed

text \<open>
  C6. Within one pass of the script the records are deduplicated by the key
  \<open>(title + '|' + body.slice(0,80)).slice(0,200)\<close>: the output is the specification's
  first-seen deduplication of the candidates' fields, in document order; the keys of the
  output are distinct, every key of a candidate is the key of one output record, and that
  record is the one of the first candidate with the key.
\<close>

theorem script_dedup_first_seen_wins:
  assumes "review_script nodes = Some out"
  shows "\<exists>fs kept.
           map extract_fields (candidates_of nodes) = map Some fs \<and>
           kept = spec_first_seen fields_key {} fs \<and>
           out = map to_dict kept \<and>
           (\<forall>f. fields_key f = take 200 (f_title f @ ''|'' @ take 80 (f_body f))) \<and>
           subseq kept fs \<and>
           distinct (map fields_key kept) \<and>
           set (map fields_key kept) = set (map fields_key fs) \<and>
           (\<forall>f \<in> set kept. find (\<lambda>g. fields_key g = fields_key f) fs = Some f)"
proof -
  from assms have "map_candidates (candidates_of nodes) {} [] = Some out"
    by (simp add: review_script_def)
  from map_candidates_spec [OF this] obtain fs where
    fs: "map extract_fields (candidates_of nodes) = map Some fs" and
    out: "out = map to_dict (spec_first_seen fields_key {} fs)"
    by auto
  have keys: "set (map fields_key (spec_first_seen fields_key {} fs)) = set (map fields_key fs)"
    by (simp only: spec_first_seen_keys) simp
  have first: "\<forall>f \<in> set (spec_first_seen fields_key {} fs).
                 find (\<lambda>g. fields_key g = fields_key f) fs = Some f"
    by (intro ballI) (drule spec_first_seen_first, simp)
  show ?thesis
  proof (intro exI conjI)
    show "map extract_fields (candidates_of nodes) = map Some fs" by (rule fs)
    show "spec_first_seen fields_key {} fs = spec_first_seen fields_key {} fs" by (rule refl)
    show "out = map to_dict (spec_first_seen fields_key {} fs)" by (rule out)
    show "\<forall>f. fields_key f = take 200 (f_title f @ ''|'' @ take 80 (f_body f))"
      by (simp add: fields_key_def dedup_key_def)
    show "subseq (spec_first_seen fields_key {} fs) fs" by (rule spec_first_seen_subseq)
    show "distinct (map fields_key (spec_first_seen fields_key {} fs))"
      by (rule spec_first_seen_distinct)
    show "set (map fields_key (spec_first_seen fields_key {} fs)) = set (map fields_key fs)"
      by (rule keys)
    show "\<forall>f \<in> set (spec_first_seen fields_key {} fs).
                 find (\<lambda>g. fields_key g = fields_key f) fs = Some f" by (rule first)
  qed
qed

lemma duplicate_nodes_script:
  "review_script [review_node ''Great'' ''2024-03-15'', review_node ''Great'' ''2024-05-01'',
                  review_node ''Old'' ''2023-12-31''] =
     Some [example_record ''Great'' ''2024-03-15'', example_record ''Old'' ''2023-12-31'']"
  by (simp add: review_script_def candidates_of_def review_node_candidate
        review_node_fields dedup_key_def js_space_def trim_def example_record_def)

theorem script_dedup_first_seen_wins_witness:
  "\<exists>fs kept.
     review_script [review_node ''Great'' ''2024-03-15'', review_node ''Great'' ''2024-05-01'',
                    review_node ''Old'' ''2023-12-31''] =
       Some [example_record ''Great'' ''2024-03-15'', example_record ''Old'' ''2023-12-31''] \<and>
     map extract_fields (candidates_of [review_node ''Great'' ''2024-03-15'',
        review_node ''Great'' ''2024-05-01'', review_node ''Old'' ''2023-12-31'']) = map Some fs \<and>
     length fs = 3 \<and>
     [example_record ''Great'' ''2024-03-15'', example_record ''Old'' ''2023-12-31''] = map to_dict kept \<and>
     length kept = 2 \<and>
     subseq kept fs \<and>
     distinct (map fields_key kept) \<and>
     set (map fields_key kept) = set (map fields_key fs)"
proof -
  let ?nodes = "[review_node ''Great'' ''2024-03-15'', review_node ''Great'' ''2024-05-01'',
                 review_node ''Old'' ''2023-12-31'']"
  let ?out = "[example_record ''Great'' ''2024-03-15'', example_record ''Old'' ''2023-12-31'']"
  from script_dedup_first_seen_wins [OF duplicate_nodes_script] obtain fs kept where
    fs: "map extract_fields (candidates_of ?nodes) = map Some fs" and
    out: "?out = map to_dict kept" and
    sub: "subseq kept fs" and
    dis: "distinct (map fields_key kept)" and
    keys: "set (map fields_key kept) = set (map fields_key fs)"
    by (elim exE conjE)
  from fs have "length (map extract_fields (candidates_of ?nodes)) = length (map Some fs)"
    by (rule arg_cong)
  then have lf: "length fs = 3"
    by (simp add: candidates_of_def review_node_candidate)
  from out have "length ?out = length (map to_dict kept)" by (rule arg_cong)
  then have lk: "length kept = 2" by simp
  from duplicate_nodes_script fs lf out lk sub dis keys show ?thesis
    by (intro exI conjI)
qed

section \<open>Properties of the collector\<close>

lemma collect_loop_rounds: "fst (collect_loop pg i n st) \<le> i + n"
proof (induction n arbitrary: i st)
  case 0
  show ?case by simp
next
  case (Suc n)
  show ?case
  proof (cases "collect_round (pg i) st")
    case (Inl e)
    then show ?thesis by simp
  next
    case (Inr p)
    obtain stop st' where p: "p = (stop, st')" by (cases p)
    show ?thesis
    proof (cases stop)
      case True
      with Inr p show ?thesis by simp
    next
      case False
      have "fst (collect_loop pg (Suc i) n st') \<le> Suc i + n" by (rule Suc.IH)
      with Inr p False show ?thesis by simp
    qed
  qed
qed

lemma merge_found_prefix:
  "merge_found found coll seen k = Inr (coll', seen', k') \<Longrightarrow> prefix coll coll'"
proof (induction found arbitrary: coll seen k)
  case Nil
  then show ?case by simp
next
  case (Cons r found)
  show ?case
  proof (cases "collect_key r")
    case (Inl e)
    with Cons.prems show ?thesis by simp
  next
    case (Inr key)
    show ?thesis
    proof (cases "key \<in> seen")
      case True
      with Cons.prems Inr have "merge_found found coll seen k = Inr (coll', seen', k')" by simp
      then show ?thesis by (rule Cons.IH)
    next
      case False
      with Cons.prems Inr
      have "merge_found found (coll @ [r]) (insert key seen) (k + 1) = Inr (coll', seen', k')"
        by simp
      then have "prefix (coll @ [r]) coll'" by (rule Cons.IH)
      then show ?thesis by (rule append_prefixD)
    qed
  qed
qed



lemma collect_round_prefix:
  "collect_round env st = Inr (stop, st') \<Longrightarrow> prefix (collected st) (collected st')"
  by (auto simp: collect_round_def split: sum.splits prod.splits if_splits
           dest: merge_found_prefix)

lemma collect_loop_prefix:
  "snd (collect_loop pg i n st) = Inr st' \<Longrightarrow> prefix (collected st) (collected st')"
proof (induction n arbitrary: i st)
  case 0
  then show ?case by simp
next
  case (Suc n)
  show ?case
  proof (cases "collect_round (pg i) st")
    case (Inl e)
    with Suc.prems show ?thesis by simp
  next
    case (Inr p)
    obtain stop st1 where p: "p = (stop, st1)" by (cases p)
    from Inr p have step: "prefix (collected st) (collected st1)"
      by (auto dest: collect_round_prefix)
    show ?thesis
    proof (cases stop)
      case True
      with Inr p Suc.prems step show ?thesis by simp
    next
      case False
      with Inr p Suc.prems have "snd (collect_loop pg (Suc i) n st1) = Inr st'" by simp
      then have "prefix (collected st1) (collected st')" by (rule Suc.IH)
      with step show ?thesis by (rule prefix_order.trans)
    qed
  qed
qed

text \<open>
  C4. For every page and every \<open>max_scrolls\<close> the collector ends, having started at most
  \<open>max_scrolls\<close> iterations (none when \<open>max_scrolls\<close> is negative), whatever the page
  keeps producing. The model is a total function, so the collector always ends; the count
  is the first component of \<open>scroll_and_collect_run\<close>.
\<close>

theorem collector_bounded_by_max_scrolls:
  "fst (scroll_and_collect_run pg max_scrolls) \<le> nat max_scrolls"
  using collect_loop_rounds [of pg 0 "nat max_scrolls" collector_init]
  by (simp add: scroll_and_collect_run_def)

lemma merge_found_nothing: "merge_found [] coll seen k = Inr (coll, seen, k)"
  by simp





text \<open>
  C5. The accumulated list only grows: the list before an iteration is a prefix of the list
  after it, so no collected record is removed or replaced and the length never decreases;
  the same holds from any state of the loop to the state the loop returns.
\<close>

theorem collector_accumulates:
  "(collect_round env st = Inr (stop, st') \<longrightarrow>
      prefix (collected st) (collected st') \<and> length (collected st) \<le> length (collected st')) \<and>
   (snd (collect_loop pg i n st0) = Inr st'' \<longrightarrow>
      prefix (collected st0) (collected st'') \<and> length (collected st0) \<le> length (collected st''))"
  by (auto dest: collect_round_prefix collect_loop_prefix prefix_length_le)

lemma growing_page_scripts:
  "extract_reviews_from_dom (document (growing_page 0)) = [example_record ''Great'' ''2024-03-15'']"
  "extract_reviews_from_dom (document (growing_page (Suc 0))) =
     [example_record ''Great'' ''2024-03-15'', example_record ''Old'' ''2023-12-31'']"
  by (simp_all add: growing_page_def document_static extract_reviews_from_dom_def
        review_script_def candidates_of_def three_nodes_def review_node_candidate
        review_node_fields dedup_key_def js_space_def trim_def example_record_def)

lemma advance_growing: "advance_page (growing_page i) = Inr ()"
  by (simp add: growing_page_def advance_static)

lemma growing_page_round:
  "collect_round (growing_page (Suc 0))
     \<lparr>collected = [example_record ''Great'' ''2024-03-15''],
      seen_keys = {''Great|A review long enough to count as a candidate node.''},
      last_len = 1\<rparr> =
   Inr (False,
     \<lparr>collected = [example_record ''Great'' ''2024-03-15'', example_record ''Old'' ''2023-12-31''],
      seen_keys = {''Old|A review long enough to count as a candidate node.'',
                   ''Great|A review long enough to count as a candidate node.''},
      last_len = 2\<rparr>)"
  by (simp add: collect_round_def growing_page_scripts example_record_key advance_growing)

theorem collector_accumulates_witness:
  "collect_round (growing_page (Suc 0))
     \<lparr>collected = [example_record ''Great'' ''2024-03-15''],
      seen_keys = {''Great|A review long enough to count as a candidate node.''},
      last_len = 1\<rparr> =
   Inr (False,
     \<lparr>collected = [example_record ''Great'' ''2024-03-15'', example_record ''Old'' ''2023-12-31''],
      seen_keys = {''Old|A review long enough to count as a candidate node.'',
                   ''Great|A review long enough to count as a candidate node.''},
      last_len = 2\<rparr>) \<and>
   prefix [example_record ''Great'' ''2024-03-15'']
     [example_record ''Great'' ''2024-03-15'', example_record ''Old'' ''2023-12-31''] \<and>
   (\<exists>st''. snd (collect_loop (static_page three_nodes) 0 40 collector_init) = Inr st'' \<and>
      length (collected st'') = 3 \<and> prefix (collected collector_init) (collected st''))"
proof -
  note acc = collector_accumulates [of "growing_page (Suc 0)"
     "\<lparr>collected = [example_record ''Great'' ''2024-03-15''],
      seen_keys = {''Great|A review long enough to count as a candidate node.''},
      last_len = 1\<rparr>" False
     "\<lparr>collected = [example_record ''Great'' ''2024-03-15'', example_record ''Old'' ''2023-12-31''],
      seen_keys = {''Old|A review long enough to count as a candidate node.'',
                   ''Great|A review long enough to count as a candidate node.''},
      last_len = 2\<rparr>" "static_page three_nodes" 0 40 collector_init
     "\<lparr>collected = [example_record ''Great'' ''2024-03-15'', example_record ''Old'' ''2023-12-31'',
           example_record ''Vague'' ''3 months ago''],
         seen_keys = {''Vague|A review long enough to count as a candidate node.'',
                      ''Old|A review long enough to count as a candidate node.'',
                      ''Great|A review long enough to count as a candidate node.''},
         last_len = 3\<rparr>"]
  have run: "snd (collect_loop (static_page three_nodes) 0 40 collector_init) =
     Inr \<lparr>collected = [example_record ''Great'' ''2024-03-15'', example_record ''Old'' ''2023-12-31'',
           example_record ''Vague'' ''3 months ago''],
         seen_keys = {''Vague|A review long enough to count as a candidate node.'',
                      ''Old|A review long enough to count as a candidate node.'',
                      ''Great|A review long enough to count as a candidate node.''},
         last_len = 3\<rparr>"
    using three_nodes_run by (simp add: scroll_and_collect_run_def)
  from mp [OF acc [THEN conjunct1] growing_page_round]
  have p1: "prefix [example_record ''Great'' ''2024-03-15'']
     [example_record ''Great'' ''2024-03-15'', example_record ''Old'' ''2023-12-31'']"
    by simp
  from mp [OF acc [THEN conjunct2] run]
  have p2: "prefix (collected collector_init)
     [example_record ''Great'' ''2024-03-15'', example_record ''Old'' ''2023-12-31'',
           example_record ''Vague'' ''3 months ago'']"
    by simp
  show ?thesis
  proof (intro conjI exI)
    show "snd (collect_loop (static_page three_nodes) 0 40 collector_init) =
     Inr \<lparr>collected = [example_record ''Great'' ''2024-03-15'', example_record ''Old'' ''2023-12-31'',
           example_record ''Vague'' ''3 months ago''],
         seen_keys = {''Vague|A review long enough to count as a candidate node.'',
                      ''Old|A review long enough to count as a candidate node.'',
                      ''Great|A review long enough to count as a candidate node.''},
         last_len = 3\<rparr>" by (rule run)
    show "length (collected \<lparr>collected = [example_record ''Great'' ''2024-03-15'', example_record ''Old'' ''2023-12-31'',
           example_record ''Vague'' ''3 months ago''],
         seen_keys = {''Vague|A review long enough to count as a candidate node.'',
                      ''Old|A review long enough to count as a candidate node.'',
                      ''Great|A review long enough to count as a candidate node.''},
         last_len = 3\<rparr>) = 3" by simp
    from p2 show "prefix (collected collector_init)
       (collected \<lparr>collected = [example_record ''Great'' ''2024-03-15'', example_record ''Old'' ''2023-12-31'',
           example_record ''Vague'' ''3 months ago''],
         seen_keys = {''Vague|A review long enough to count as a candidate node.'',
                      ''Old|A review long enough to count as a candidate node.'',
                      ''Great|A review long enough to count as a candidate node.''},
         last_len = 3\<rparr>)" by simp
  qed (rule growing_page_round, rule p1)
qed

section \<open>Properties of the adapters\<close>

text \<open>
  \<open>within_range\<close> returns \<open>True\<close> exactly when both comparisons of the library hold.
\<close>

lemma within_range_True_iff:
  "within_range lib d start end_d = Inr True \<longleftrightarrow>
   dt_le lib start d = Some True \<and> dt_le lib d end_d = Some True"
  by (auto simp: within_range_def split: option.splits bool.splits)

lemma spec_survives_within_range:
  "spec_survives lib start end_d r =
     (case parse_date_safe lib (raw_date r) of
        None \<Rightarrow> True
      | Some d \<Rightarrow> within_range lib d start end_d = Inr True)"
  by (simp add: spec_survives_def within_range_True_iff split: option.splits)

lemma normalize_reviews_eq:
  "normalize_reviews lib src start end_d rs acc = Inr out \<Longrightarrow>
   out = acc @ map (\<lambda>r. review_copy lib src (parse_date_safe lib (raw_date r)) r)
                 (filter (spec_survives lib start end_d) rs)"
proof (induction rs arbitrary: acc)
  case Nil
  then show ?case by simp
next
  case (Cons r rs)
  show ?case
  proof (cases "parse_date_safe lib (raw_date r)")
    case None
    with Cons.prems
    have "normalize_reviews lib src start end_d rs (acc @ [review_copy lib src None r]) = Inr out"
      by simp
    from Cons.IH [OF this] None show ?thesis by (simp add: spec_survives_within_range)
  next
    case (Some d)
    show ?thesis
    proof (cases "within_range lib d start end_d")
      case (Inl e)
      with Cons.prems Some show ?thesis by simp
    next
      case (Inr inside)
      show ?thesis
      proof (cases inside)
        case True
        with Cons.prems Some Inr
        have "normalize_reviews lib src start end_d rs (acc @ [review_copy lib src (Some d) r]) = Inr out"
          by simp
        from Cons.IH [OF this] Some Inr True show ?thesis by (simp add: spec_survives_within_range)
      next
        case False
        with Cons.prems Some Inr
        have "normalize_reviews lib src start end_d rs acc = Inr out" by simp
        from Cons.IH [OF this] Some Inr False show ?thesis by (simp add: spec_survives_within_range)
      qed
    qed
  qed
qed

text \<open>
  C1. Capterra and TrustRadius: when the adapter returns, its output is the normalised copy
  of exactly those collected records that pass the specification's range filter
  \<open>spec_survives\<close>, in their order: a record whose date field parses to \<open>d\<close> is in
  the output if and only if \<open>start <= d\<close> and \<open>d <= end\<close> both hold by the
  comparison \<open>dt_le\<close> of the date library, and a record whose date field does not parse
  is always in it.
\<close>

theorem capterra_trustradius_range_filter:
  "(scrape_capterra lib br slug start end_d = Inr out \<longrightarrow>
      (\<exists>pg all_reviews.
         try_urls br (capterra_urls slug) = Some pg \<and>
         scroll_and_collect pg 40 = Inr all_reviews \<and>
         out = map (\<lambda>r. review_copy lib ''Capterra'' (parse_date_safe lib (raw_date r)) r)
                 (filter (spec_survives lib start end_d) all_reviews))) \<and>
   (scrape_trustradius lib br slug start end_d = Inr out \<longrightarrow>
      (\<exists>pg all_reviews.
         goto br (trustradius_url slug) = Some pg \<and>
         scroll_and_collect pg 40 = Inr all_reviews \<and>
         out = map (\<lambda>r. review_copy lib ''TrustRadius'' (parse_date_safe lib (raw_date r)) r)
                 (filter (spec_survives lib start end_d) all_reviews)))"
proof (intro conjI impI)
  assume a: "scrape_capterra lib br slug start end_d = Inr out"
  then obtain pg where pg: "try_urls br (capterra_urls slug) = Some pg"
    by (auto simp: scrape_capterra_def split: option.splits)
  with a obtain all_reviews where coll: "scroll_and_collect pg 40 = Inr all_reviews"
    by (auto simp: scrape_capterra_def split: sum.splits)
  with a pg have "normalize_reviews lib ''Capterra'' start end_d all_reviews [] = Inr out"
    by (simp add: scrape_capterra_def)
  from normalize_reviews_eq [OF this] pg coll
  show "\<exists>pg all_reviews.
         try_urls br (capterra_urls slug) = Some pg \<and>
         scroll_and_collect pg 40 = Inr all_reviews \<and>
         out = map (\<lambda>r. review_copy lib ''Capterra'' (parse_date_safe lib (raw_date r)) r)
                 (filter (spec_survives lib start end_d) all_reviews)"
    by auto
next
  assume a: "scrape_trustradius lib br slug start end_d = Inr out"
  then obtain pg where pg: "goto br (trustradius_url slug) = Some pg"
    by (auto simp: scrape_trustradius_def split: option.splits)
  with a obtain all_reviews where coll: "scroll_and_collect pg 40 = Inr all_reviews"
    by (auto simp: scrape_trustradius_def split: sum.splits)
  with a pg have "normalize_reviews lib ''TrustRadius'' start end_d all_reviews [] = Inr out"
    by (simp add: scrape_trustradius_def)
  from normalize_reviews_eq [OF this] pg coll
  show "\<exists>pg all_reviews.
         goto br (trustradius_url slug) = Some pg \<and>
         scroll_and_collect pg 40 = Inr all_reviews \<and>
         out = map (\<lambda>r. review_copy lib ''TrustRadius'' (parse_date_safe lib (raw_date r)) r)
                 (filter (spec_survives lib start end_d) all_reviews)"
    by auto
qed

lemma example_capterra:
  "scrape_capterra example_lib (example_browser three_nodes) ''zoho-crm'' ''2024-01-01'' ''2024-06-30'' =
     Inr [review_copy example_lib ''Capterra'' (Some ''2024-03-15'') (example_record ''Great'' ''2024-03-15''),
          review_copy example_lib ''Capterra'' None (example_record ''Vague'' ''3 months ago'')]"
  by (simp add: scrape_capterra_def capterra_urls_def example_browser_def three_nodes_collected
        example_record_date example_dates example_ranges)

lemma example_trustradius:
  "scrape_trustradius example_lib (example_browser three_nodes) ''zoho-crm'' ''2024-01-01'' ''2024-06-30'' =
     Inr [review_copy example_lib ''TrustRadius'' (Some ''2024-03-15'') (example_record ''Great'' ''2024-03-15''),
          review_copy example_lib ''TrustRadius'' None (example_record ''Vague'' ''3 months ago'')]"
  by (simp add: scrape_trustradius_def trustradius_url_def example_browser_def three_nodes_collected
        example_record_date example_dates example_ranges)

lemma example_survives:
  "spec_survives example_lib ''2024-01-01'' ''2024-06-30'' (example_record ''Great'' ''2024-03-15'')"
  "\<not> spec_survives example_lib ''2024-01-01'' ''2024-06-30'' (example_record ''Old'' ''2023-12-31'')"
  "spec_survives example_lib ''2024-01-01'' ''2024-06-30'' (example_record ''Vague'' ''3 months ago'')"
  by (simp_all add: spec_survives_def example_record_date example_dates example_le)

theorem capterra_trustradius_range_filter_witness:
  "dt_le example_lib ''2024-01-01'' ''2023-12-31'' = Some False \<and>
   spec_survives example_lib ''2024-01-01'' ''2024-06-30'' (example_record ''Great'' ''2024-03-15'') \<and>
   \<not> spec_survives example_lib ''2024-01-01'' ''2024-06-30'' (example_record ''Old'' ''2023-12-31'') \<and>
   spec_survives example_lib ''2024-01-01'' ''2024-06-30'' (example_record ''Vague'' ''3 months ago'') \<and>
   (\<exists>out pg all_reviews.
      scrape_capterra example_lib (example_browser three_nodes) ''zoho-crm'' ''2024-01-01'' ''2024-06-30'' = Inr out \<and>
      length out = 2 \<and>
      try_urls (example_browser three_nodes) (capterra_urls ''zoho-crm'') = Some pg \<and>
      scroll_and_collect pg 40 = Inr all_reviews \<and> length all_reviews = 3 \<and>
      out = map (\<lambda>r. review_copy example_lib ''Capterra'' (parse_date_safe example_lib (raw_date r)) r)
              (filter (spec_survives example_lib ''2024-01-01'' ''2024-06-30'') all_reviews)) \<and>
   (\<exists>out pg all_reviews.
      scrape_trustradius example_lib (example_browser three_nodes) ''zoho-crm'' ''2024-01-01'' ''2024-06-30'' = Inr out \<and>
      length out = 2 \<and>
      goto (example_browser three_nodes) (trustradius_url ''zoho-crm'') = Some pg \<and>
      scroll_and_collect pg 40 = Inr all_reviews \<and> length all_reviews = 3 \<and>
      out = map (\<lambda>r. review_copy example_lib ''TrustRadius'' (parse_date_safe example_lib (raw_date r)) r)
              (filter (spec_survives example_lib ''2024-01-01'' ''2024-06-30'') all_reviews))"
proof (intro conjI)
  show "dt_le example_lib ''2024-01-01'' ''2023-12-31'' = Some False"
    by (rule example_le)
  show "spec_survives example_lib ''2024-01-01'' ''2024-06-30'' (example_record ''Great'' ''2024-03-15'')"
    by (rule example_survives)
  show "\<not> spec_survives example_lib ''2024-01-01'' ''2024-06-30'' (example_record ''Old'' ''2023-12-31'')"
    by (rule example_survives)
  show "spec_survives example_lib ''2024-01-01'' ''2024-06-30'' (example_record ''Vague'' ''3 months ago'')"
    by (rule example_survives)
next
  let ?br = "example_browser three_nodes"
  let ?c = "[review_copy example_lib ''Capterra'' (Some ''2024-03-15'') (example_record ''Great'' ''2024-03-15''),
          review_copy example_lib ''Capterra'' None (example_record ''Vague'' ''3 months ago'')]"
  from mp [OF capterra_trustradius_range_filter
         [of example_lib ?br "''zoho-crm''" "''2024-01-01''" "''2024-06-30''" ?c, THEN conjunct1]
       example_capterra]
  obtain pg all_reviews where
    pg: "try_urls ?br (capterra_urls ''zoho-crm'') = Some pg" and
    coll: "scroll_and_collect pg 40 = Inr all_reviews" and
    out: "?c = map (\<lambda>r. review_copy example_lib ''Capterra'' (parse_date_safe example_lib (raw_date r)) r)
              (filter (spec_survives example_lib ''2024-01-01'' ''2024-06-30'') all_reviews)"
    by (elim exE conjE)
  from pg have "pg = static_page three_nodes"
    by (simp add: capterra_urls_def example_browser_def)
  with coll have len: "length all_reviews = 3" by (auto simp: three_nodes_collected)
  show "\<exists>out pg all_reviews.
      scrape_capterra example_lib ?br ''zoho-crm'' ''2024-01-01'' ''2024-06-30'' = Inr out \<and>
      length out = 2 \<and>
      try_urls ?br (capterra_urls ''zoho-crm'') = Some pg \<and>
      scroll_and_collect pg 40 = Inr all_reviews \<and> length all_reviews = 3 \<and>
      out = map (\<lambda>r. review_copy example_lib ''Capterra'' (parse_date_safe example_lib (raw_date r)) r)
              (filter (spec_survives example_lib ''2024-01-01'' ''2024-06-30'') all_reviews)"
  proof (intro exI conjI)
    show "scrape_capterra example_lib ?br ''zoho-crm'' ''2024-01-01'' ''2024-06-30'' = Inr ?c"
      by (rule example_capterra)
    show "length ?c = 2" by simp
    show "try_urls ?br (capterra_urls ''zoho-crm'') = Some pg" by (rule pg)
    show "scroll_and_collect pg 40 = Inr all_reviews" by (rule coll)
    show "length all_reviews = 3" by (rule len)
    show "?c = map (\<lambda>r. review_copy example_lib ''Capterra'' (parse_date_safe example_lib (raw_date r)) r)
              (filter (spec_survives example_lib ''2024-01-01'' ''2024-06-30'') all_reviews)"
      by (rule out)
  qed
next
  let ?br = "example_browser three_nodes"
  let ?t = "[review_copy example_lib ''TrustRadius'' (Some ''2024-03-15'') (example_record ''Great'' ''2024-03-15''),
          review_copy example_lib ''TrustRadius'' None (example_record ''Vague'' ''3 months ago'')]"
  from mp [OF capterra_trustradius_range_filter
         [of example_lib ?br "''zoho-crm''" "''2024-01-01''" "''2024-06-30''" ?t, THEN conjunct2]
       example_trustradius]
  obtain pg all_reviews where
    pg: "goto ?br (trustradius_url ''zoho-crm'') = Some pg" and
    coll: "scroll_and_collect pg 40 = Inr all_reviews" and
    out: "?t = map (\<lambda>r. review_copy example_lib ''TrustRadius'' (parse_date_safe example_lib (raw_date r)) r)
              (filter (spec_survives example_lib ''2024-01-01'' ''2024-06-30'') all_reviews)"
    by (elim exE conjE)
  from pg have "pg = static_page three_nodes"
    by (simp add: example_browser_def)
  with coll have len: "length all_reviews = 3" by (auto simp: three_nodes_collected)
  show "\<exists>out pg all_reviews.
      scrape_trustradius example_lib ?br ''zoho-crm'' ''2024-01-01'' ''2024-06-30'' = Inr out \<and>
      length out = 2 \<and>
      goto ?br (trustradius_url ''zoho-crm'') = Some pg \<and>
      scroll_and_collect pg 40 = Inr all_reviews \<and> length all_reviews = 3 \<and>
      out = map (\<lambda>r. review_copy example_lib ''TrustRadius'' (parse_date_safe example_lib (raw_date r)) r)
              (filter (spec_survives example_lib ''2024-01-01'' ''2024-06-30'') all_reviews)"
  proof (intro exI conjI)
    show "scrape_trustradius example_lib ?br ''zoho-crm'' ''2024-01-01'' ''2024-06-30'' = Inr ?t"
      by (rule example_trustradius)
    show "length ?t = 2" by simp
    show "goto ?br (trustradius_url ''zoho-crm'') = Some pg" by (rule pg)
    show "scroll_and_collect pg 40 = Inr all_reviews" by (rule coll)
    show "length all_reviews = 3" by (rule len)
    show "?t = map (\<lambda>r. review_copy example_lib ''TrustRadius'' (parse_date_safe example_lib (raw_date r)) r)
              (filter (spec_survives example_lib ''2024-01-01'' ''2024-06-30'') all_reviews)"
      by (rule out)
  qed
qed

subsection \<open>G2\<close>






lemma review_copy_date:
  "raw_date (review_copy lib src dt r) = (case dt of Some d \<Rightarrow> iso lib d | None \<Rightarrow> raw_date r)"
  by (simp add: raw_date_def review_copy_def dict_get_def)










subsection \<open>The shape of the emitted records\<close>

lemma review_copy_dom:
  "dom (review_copy lib src dt raw) =
     {''title'', ''description'', ''date'', ''rating'', ''reviewer'', ''source''}"
  by (simp add: review_copy_def insert_commute)

lemma review_copy_strings:
  assumes "k \<in> dom (review_copy lib src dt raw)"
  shows "\<exists>s. review_copy lib src dt raw k = Some (PStr s)"
proof -
  from assms have "k = ''title'' \<or> k = ''description'' \<or> k = ''date'' \<or> k = ''rating'' \<or>
      k = ''reviewer'' \<or> k = ''source''"
    by (simp add: review_copy_dom)
  then show ?thesis
    by (elim disjE) (simp_all add: review_copy_def)
qed

lemma review_copy_coerces:
  assumes "raw k = None \<or> raw k = Some PNone"
  shows "k = ''title'' \<or> k = ''description'' \<or> k = ''rating'' \<or> k = ''reviewer'' \<Longrightarrow>
           review_copy lib src dt raw k = Some (PStr [])"
    and "k = ''date'' \<Longrightarrow> review_copy lib src None raw k = Some (PStr [])"
proof -
  from assms have get: "or_empty (dict_get raw k PNone) = []"
    by (elim disjE) (simp_all add: dict_get_def)
  show "review_copy lib src dt raw k = Some (PStr [])"
    if "k = ''title'' \<or> k = ''description'' \<or> k = ''rating'' \<or> k = ''reviewer''"
    using that get by (elim disjE) (simp_all add: review_copy_def)
  show "review_copy lib src None raw k = Some (PStr [])" if "k = ''date''"
    using that get by (simp add: review_copy_def raw_date_def)
qed

lemma g2_normalize_set:
  "g2_normalize lib start end_d rs acc = Inr out \<Longrightarrow> x \<in> set out \<Longrightarrow>
   x \<in> set acc \<or>
   (\<exists>raw \<in> set rs. \<exists>dt. g2_resolve_date lib raw = Inr dt \<and> x = review_copy lib ''G2'' dt raw)"
proof (induction rs arbitrary: acc)
  case Nil
  then show ?case by simp
next
  case (Cons r rs)
  from Cons.prems(1) obtain acc' where
    rest: "g2_normalize lib start end_d rs acc' = Inr out" and
    acc': "acc' = acc \<or>
           (\<exists>dt. g2_resolve_date lib r = Inr dt \<and> acc' = acc @ [review_copy lib ''G2'' dt r])"
    by (auto split: sum.splits option.splits if_splits)
  from Cons.IH [OF rest Cons.prems(2)] acc' show ?case by auto
qed

lemma g2_final_filter_set:
  "g2_final_filter lib start end_d rs acc = Inr out \<Longrightarrow> set out \<subseteq> set acc \<union> set rs"
proof (induction rs arbitrary: acc)
  case Nil
  then show ?case by simp
next
  case (Cons r rs)
  from Cons.prems obtain acc' where
    rest: "g2_final_filter lib start end_d rs acc' = Inr out" and
    acc': "acc' = acc \<or> acc' = acc @ [r]"
    by (auto simp: Let_def split: sum.splits option.splits if_splits)
  from Cons.IH [OF rest] acc' show ?case by auto
qed

lemma g2_filter_set:
  assumes "g2_filter lib start end_d rs = Inr out" "x \<in> set out"
  shows "\<exists>raw \<in> set rs. \<exists>dt. g2_resolve_date lib raw = Inr dt \<and>
           x = review_copy lib ''G2'' dt raw"
proof -
  from assms(1) obtain n where n: "g2_normalize lib start end_d rs [] = Inr n"
    and f: "g2_final_filter lib start end_d n [] = Inr out"
    by (auto simp: g2_filter_def split: sum.splits)
  from g2_final_filter_set [OF f] assms(2) have "x \<in> set n" by auto
  from g2_normalize_set [OF n this] show ?thesis by simp
qed

lemma normalize_reviews_set:
  assumes "normalize_reviews lib src start end_d rs [] = Inr out" "x \<in> set out"
  shows "\<exists>raw \<in> set rs. x = review_copy lib src (parse_date_safe lib (raw_date raw)) raw"
  using normalize_reviews_eq [OF assms(1)] assms(2) by auto

text \<open>
  The three adapters return what these loops make of the collected list: \<open>scrape_g2\<close>
  returns \<open>g2_filter\<close> of it, \<open>scrape_capterra\<close> and \<open>scrape_trustradius\<close> return
  \<open>normalize_reviews\<close> of it with their source tag.
\<close>

lemma adapters_apply_loops:
  "scrape_g2 lib br slug start end_d = Inr out \<Longrightarrow>
     \<exists>pg all_reviews. goto br (g2_url slug) = Some pg \<and>
       scroll_and_collect pg 40 = Inr all_reviews \<and>
       g2_filter lib start end_d all_reviews = Inr out"
  "scrape_capterra lib br slug start end_d = Inr out \<Longrightarrow>
     \<exists>pg all_reviews. try_urls br (capterra_urls slug) = Some pg \<and>
       scroll_and_collect pg 40 = Inr all_reviews \<and>
       normalize_reviews lib ''Capterra'' start end_d all_reviews [] = Inr out"
  "scrape_trustradius lib br slug start end_d = Inr out \<Longrightarrow>
     \<exists>pg all_reviews. goto br (trustradius_url slug) = Some pg \<and>
       scroll_and_collect pg 40 = Inr all_reviews \<and>
       normalize_reviews lib ''TrustRadius'' start end_d all_reviews [] = Inr out"
  by (auto simp: scrape_g2_def scrape_capterra_def scrape_trustradius_def
        split: option.splits sum.splits)

text \<open>
  C9. Every record that the loop of an adapter emits, whatever the records it is given,
  has exactly the six keys \<open>title\<close>, \<open>description\<close>, \<open>date\<close>, \<open>rating\<close>,
  \<open>reviewer\<close>, \<open>source\<close>, each with a string value. It is the dict literal \<open>r_copy\<close>
  built from one of the given records \<open>raw\<close>, with the date that the adapter resolved
  for it: a field that is missing or \<open>None\<close> in \<open>raw\<close> is the empty string in the
  emitted record (the date field when no date was resolved). The loops are \<open>g2_filter\<close>
  for G2 and \<open>normalize_reviews\<close> with the source tag for Capterra and TrustRadius; the
  given records are arbitrary, so also records with missing and \<open>None\<close> fields.
\<close>

theorem adapters_emit_six_string_fields:
  assumes "g2_filter lib start end_d rs = Inr out \<or>
           normalize_reviews lib src start end_d rs [] = Inr out"
    and "r \<in> set out"
  shows "dom r = {''title'', ''description'', ''date'', ''rating'', ''reviewer'', ''source''} \<and>
         (\<forall>k \<in> dom r. \<exists>s. r k = Some (PStr s)) \<and>
         (\<exists>raw \<in> set rs. \<exists>dt tag.
            ((g2_resolve_date lib raw = Inr dt \<and> tag = ''G2'') \<or>
             (dt = parse_date_safe lib (raw_date raw) \<and> tag = src)) \<and>
            r = review_copy lib tag dt raw \<and>
            (\<forall>k \<in> {''title'', ''description'', ''rating'', ''reviewer''}.
               raw k = None \<or> raw k = Some PNone \<longrightarrow> r k = Some (PStr [])) \<and>
            (dt = None \<longrightarrow> raw ''date'' = None \<or> raw ''date'' = Some PNone \<longrightarrow>
               r ''date'' = Some (PStr [])))"
proof -
  have "\<exists>raw dt tag. raw \<in> set rs \<and>
          ((g2_resolve_date lib raw = Inr dt \<and> tag = ''G2'') \<or>
           (dt = parse_date_safe lib (raw_date raw) \<and> tag = src)) \<and>
          r = review_copy lib tag dt raw"
    using assms(1)
  proof (elim disjE)
    assume "g2_filter lib start end_d rs = Inr out"
    from g2_filter_set [OF this assms(2)] obtain raw dt where
      a: "raw \<in> set rs" and b: "g2_resolve_date lib raw = Inr dt" and
      c: "r = review_copy lib ''G2'' dt raw"
      by (elim bexE exE conjE)
    from b have "(g2_resolve_date lib raw = Inr dt \<and> ''G2'' = ''G2'') \<or>
        (dt = parse_date_safe lib (raw_date raw) \<and> ''G2'' = src)"
      by (intro disjI1 conjI refl)
    with a c have "raw \<in> set rs \<and>
        ((g2_resolve_date lib raw = Inr dt \<and> ''G2'' = ''G2'') \<or>
         (dt = parse_date_safe lib (raw_date raw) \<and> ''G2'' = src)) \<and>
        r = review_copy lib ''G2'' dt raw"
      by (intro conjI)
    then show ?thesis by (intro exI)
  next
    assume "normalize_reviews lib src start end_d rs [] = Inr out"
    from normalize_reviews_set [OF this assms(2)] obtain raw where
      a: "raw \<in> set rs" and
      c: "r = review_copy lib src (parse_date_safe lib (raw_date raw)) raw"
      by (elim bexE)
    have "(g2_resolve_date lib raw = Inr (parse_date_safe lib (raw_date raw)) \<and> src = ''G2'') \<or>
        (parse_date_safe lib (raw_date raw) = parse_date_safe lib (raw_date raw) \<and> src = src)"
      by (intro disjI2 conjI refl)
    with a c have "raw \<in> set rs \<and>
        ((g2_resolve_date lib raw = Inr (parse_date_safe lib (raw_date raw)) \<and> src = ''G2'') \<or>
         (parse_date_safe lib (raw_date raw) = parse_date_safe lib (raw_date raw) \<and> src = src)) \<and>
        r = review_copy lib src (parse_date_safe lib (raw_date raw)) raw"
      by (intro conjI)
    then show ?thesis by (intro exI)
  qed
  then obtain raw dt tag where
    raw: "raw \<in> set rs" and
    pin: "(g2_resolve_date lib raw = Inr dt \<and> tag = ''G2'') \<or>
          (dt = parse_date_safe lib (raw_date raw) \<and> tag = src)" and
    r: "r = review_copy lib tag dt raw"
    by (elim exE conjE)
  have 1: "dom r = {''title'', ''description'', ''date'', ''rating'', ''reviewer'', ''source''}"
    unfolding r by (rule review_copy_dom)
  have 2: "\<forall>k \<in> dom r. \<exists>s. r k = Some (PStr s)"
    unfolding r by (intro ballI) (rule review_copy_strings)
  have 3: "\<forall>k \<in> {''title'', ''description'', ''rating'', ''reviewer''}.
             raw k = None \<or> raw k = Some PNone \<longrightarrow> r k = Some (PStr [])"
  proof (intro ballI impI)
    fix k :: string
    assume "k \<in> {''title'', ''description'', ''rating'', ''reviewer''}"
    then have k: "k = ''title'' \<or> k = ''description'' \<or> k = ''rating'' \<or> k = ''reviewer''"
      by simp
    assume "raw k = None \<or> raw k = Some PNone"
    from review_copy_coerces(1) [of raw k, OF this k] show "r k = Some (PStr [])" unfolding r .
  qed
  have 4: "dt = None \<longrightarrow> raw ''date'' = None \<or> raw ''date'' = Some PNone \<longrightarrow>
             r ''date'' = Some (PStr [])"
  proof (intro impI)
    assume "dt = None" and "raw ''date'' = None \<or> raw ''date'' = Some PNone"
    from review_copy_coerces(2) [of raw "''date''", OF this(2) refl] \<open>dt = None\<close>
    show "r ''date'' = Some (PStr [])" unfolding r by simp
  qed
  from pin r 3 4
  have "((g2_resolve_date lib raw = Inr dt \<and> tag = ''G2'') \<or>
         (dt = parse_date_safe lib (raw_date raw) \<and> tag = src)) \<and>
        r = review_copy lib tag dt raw \<and>
        (\<forall>k \<in> {''title'', ''description'', ''rating'', ''reviewer''}.
           raw k = None \<or> raw k = Some PNone \<longrightarrow> r k = Some (PStr [])) \<and>
        (dt = None \<longrightarrow> raw ''date'' = None \<or> raw ''date'' = Some PNone \<longrightarrow>
           r ''date'' = Some (PStr []))"
    by (intro conjI)
  then have ex: "\<exists>dt tag.
        ((g2_resolve_date lib raw = Inr dt \<and> tag = ''G2'') \<or>
         (dt = parse_date_safe lib (raw_date raw) \<and> tag = src)) \<and>
        r = review_copy lib tag dt raw \<and>
        (\<forall>k \<in> {''title'', ''description'', ''rating'', ''reviewer''}.
           raw k = None \<or> raw k = Some PNone \<longrightarrow> r k = Some (PStr [])) \<and>
        (dt = None \<longrightarrow> raw ''date'' = None \<or> raw ''date'' = Some PNone \<longrightarrow>
           r ''date'' = Some (PStr []))"
    by (intro exI)
  have 5: "\<exists>raw \<in> set rs. \<exists>dt tag.
        ((g2_resolve_date lib raw = Inr dt \<and> tag = ''G2'') \<or>
         (dt = parse_date_safe lib (raw_date raw) \<and> tag = src)) \<and>
        r = review_copy lib tag dt raw \<and>
        (\<forall>k \<in> {''title'', ''description'', ''rating'', ''reviewer''}.
           raw k = None \<or> raw k = Some PNone \<longrightarrow> r k = Some (PStr [])) \<and>
        (dt = None \<longrightarrow> raw ''date'' = None \<or> raw ''date'' = Some PNone \<longrightarrow>
           r ''date'' = Some (PStr []))"
  proof (rule bexI)
    show "\<exists>dt tag.
        ((g2_resolve_date lib raw = Inr dt \<and> tag = ''G2'') \<or>
         (dt = parse_date_safe lib (raw_date raw) \<and> tag = src)) \<and>
        r = review_copy lib tag dt raw \<and>
        (\<forall>k \<in> {''title'', ''description'', ''rating'', ''reviewer''}.
           raw k = None \<or> raw k = Some PNone \<longrightarrow> r k = Some (PStr [])) \<and>
        (dt = None \<longrightarrow> raw ''date'' = None \<or> raw ''date'' = Some PNone \<longrightarrow>
           r ''date'' = Some (PStr []))"
      by (rule ex)
    show "raw \<in> set rs" by (rule raw)
  qed
  from 1 2 5 show ?thesis by (intro conjI)
qed

lemma sparse_record_fields:
  "sparse_record ''title'' = Some PNone"
  "sparse_record ''description'' = None"
  "sparse_record ''date'' = None"
  "sparse_record ''reviewer'' = None"
  "raw_date sparse_record = []"
  by (simp_all add: sparse_record_def raw_date_def dict_get_def)

lemma example_parse_empty: "parse_date_safe example_lib [] = None"
  by (simp add: parse_date_safe_def example_lib_def example_parse_def)

lemma example_sparse_resolve: "g2_resolve_date example_lib sparse_record = Inr None"
  by (simp add: g2_resolve_date_def sparse_record_fields example_parse_empty dict_get_def)

lemma example_sparse_capterra:
  "normalize_reviews example_lib ''Capterra'' ''2024-01-01'' ''2024-06-30'' [sparse_record] [] =
     Inr [review_copy example_lib ''Capterra'' None sparse_record]"
  by (simp add: sparse_record_fields example_parse_empty)

lemma example_sparse_g2:
  "g2_filter example_lib ''2024-01-01'' ''2024-06-30'' [sparse_record] =
     Inr [review_copy example_lib ''G2'' None sparse_record]"
  by (simp add: g2_filter_def example_sparse_resolve review_copy_date sparse_record_fields)

theorem adapters_emit_six_string_fields_witness:
  "sparse_record ''title'' = Some PNone \<and> sparse_record ''description'' = None \<and>
   sparse_record ''date'' = None \<and> sparse_record ''reviewer'' = None \<and>
   (\<exists>out r.
      normalize_reviews example_lib ''Capterra'' ''2024-01-01'' ''2024-06-30'' [sparse_record] [] =
        Inr out \<and>
      r \<in> set out \<and>
      dom r = {''title'', ''description'', ''date'', ''rating'', ''reviewer'', ''source''} \<and>
      r ''title'' = Some (PStr []) \<and> r ''description'' = Some (PStr []) \<and>
      r ''date'' = Some (PStr []) \<and> r ''reviewer'' = Some (PStr [])) \<and>
   (\<exists>out r.
      g2_filter example_lib ''2024-01-01'' ''2024-06-30'' [sparse_record] = Inr out \<and>
      r \<in> set out \<and>
      dom r = {''title'', ''description'', ''date'', ''rating'', ''reviewer'', ''source''} \<and>
      r ''title'' = Some (PStr []) \<and> r ''description'' = Some (PStr []) \<and>
      r ''date'' = Some (PStr []) \<and> r ''reviewer'' = Some (PStr []))"
proof -
  let ?c = "review_copy example_lib ''Capterra'' None sparse_record"
  let ?g = "review_copy example_lib ''G2'' None sparse_record"
  have keys: "''title'' \<in> {''title'', ''description'', ''rating'', ''reviewer''}"
    "''description'' \<in> {''title'', ''description'', ''rating'', ''reviewer''}"
    "''reviewer'' \<in> {''title'', ''description'', ''rating'', ''reviewer''}"
    by simp_all
  have fields: "r ''title'' = Some (PStr []) \<and> r ''description'' = Some (PStr []) \<and>
      r ''date'' = Some (PStr []) \<and> r ''reviewer'' = Some (PStr [])"
    if shape: "\<exists>raw \<in> set [sparse_record]. \<exists>dt tag.
            ((g2_resolve_date example_lib raw = Inr dt \<and> tag = ''G2'') \<or>
             (dt = parse_date_safe example_lib (raw_date raw) \<and> tag = ''Capterra'')) \<and>
            r = review_copy example_lib tag dt raw \<and>
            (\<forall>k \<in> {''title'', ''description'', ''rating'', ''reviewer''}.
               raw k = None \<or> raw k = Some PNone \<longrightarrow> r k = Some (PStr [])) \<and>
            (dt = None \<longrightarrow> raw ''date'' = None \<or> raw ''date'' = Some PNone \<longrightarrow>
               r ''date'' = Some (PStr []))" for r
  proof -
    from shape obtain raw dt tag where
      raw: "raw \<in> set [sparse_record]" and
      pin: "(g2_resolve_date example_lib raw = Inr dt \<and> tag = ''G2'') \<or>
            (dt = parse_date_safe example_lib (raw_date raw) \<and> tag = ''Capterra'')" and
      co: "\<forall>k \<in> {''title'', ''description'', ''rating'', ''reviewer''}.
             raw k = None \<or> raw k = Some PNone \<longrightarrow> r k = Some (PStr [])" and
      dco: "dt = None \<longrightarrow> raw ''date'' = None \<or> raw ''date'' = Some PNone \<longrightarrow>
              r ''date'' = Some (PStr [])"
      by (elim bexE exE conjE)
    from raw have raw_eq: "raw = sparse_record" by simp
    from pin have dt: "dt = None"
      unfolding raw_eq
      by (elim disjE conjE) (simp_all add: example_sparse_resolve sparse_record_fields example_parse_empty)
    from bspec [OF co keys(1)] have t: "r ''title'' = Some (PStr [])"
      unfolding raw_eq by (simp add: sparse_record_fields)
    from bspec [OF co keys(2)] have d: "r ''description'' = Some (PStr [])"
      unfolding raw_eq by (simp add: sparse_record_fields)
    from bspec [OF co keys(3)] have w: "r ''reviewer'' = Some (PStr [])"
      unfolding raw_eq by (simp add: sparse_record_fields)
    from dco dt have dd: "r ''date'' = Some (PStr [])"
      unfolding raw_eq by (simp add: sparse_record_fields)
    from t d dd w show ?thesis by (intro conjI)
  qed
  have run_c: "g2_filter example_lib ''2024-01-01'' ''2024-06-30'' [sparse_record] = Inr [?c] \<or>
      normalize_reviews example_lib ''Capterra'' ''2024-01-01'' ''2024-06-30'' [sparse_record] [] =
        Inr [?c]"
    by (rule disjI2) (rule example_sparse_capterra)
  have run_g: "g2_filter example_lib ''2024-01-01'' ''2024-06-30'' [sparse_record] = Inr [?g] \<or>
      normalize_reviews example_lib ''Capterra'' ''2024-01-01'' ''2024-06-30'' [sparse_record] [] =
        Inr [?g]"
    by (rule disjI1) (rule example_sparse_g2)
  have mem_c: "?c \<in> set [?c]" and mem_g: "?g \<in> set [?g]" by simp_all
  note shape_c = adapters_emit_six_string_fields [OF run_c mem_c]
  note shape_g = adapters_emit_six_string_fields [OF run_g mem_g]
  from shape_c
  have dom_c: "dom ?c = {''title'', ''description'', ''date'', ''rating'', ''reviewer'', ''source''}"
    by (rule conjunct1)
  from shape_g
  have dom_g: "dom ?g = {''title'', ''description'', ''date'', ''rating'', ''reviewer'', ''source''}"
    by (rule conjunct1)
  note fields_c = fields [OF shape_c [THEN conjunct2, THEN conjunct2]]
  note fields_g = fields [OF shape_g [THEN conjunct2, THEN conjunct2]]
  have "normalize_reviews example_lib ''Capterra'' ''2024-01-01'' ''2024-06-30'' [sparse_record] [] =
        Inr [?c] \<and>
      ?c \<in> set [?c] \<and>
      dom ?c = {''title'', ''description'', ''date'', ''rating'', ''reviewer'', ''source''} \<and>
      ?c ''title'' = Some (PStr []) \<and> ?c ''description'' = Some (PStr []) \<and>
      ?c ''date'' = Some (PStr []) \<and> ?c ''reviewer'' = Some (PStr [])"
    by (rule conjI [OF example_sparse_capterra conjI [OF mem_c conjI [OF dom_c fields_c]]])
  then have cap: "\<exists>out r.
      normalize_reviews example_lib ''Capterra'' ''2024-01-01'' ''2024-06-30'' [sparse_record] [] =
        Inr out \<and>
      r \<in> set out \<and>
      dom r = {''title'', ''description'', ''date'', ''rating'', ''reviewer'', ''source''} \<and>
      r ''title'' = Some (PStr []) \<and> r ''description'' = Some (PStr []) \<and>
      r ''date'' = Some (PStr []) \<and> r ''reviewer'' = Some (PStr [])"
    by (intro exI)
  have "g2_filter example_lib ''2024-01-01'' ''2024-06-30'' [sparse_record] = Inr [?g] \<and>
      ?g \<in> set [?g] \<and>
      dom ?g = {''title'', ''description'', ''date'', ''rating'', ''reviewer'', ''source''} \<and>
      ?g ''title'' = Some (PStr []) \<and> ?g ''description'' = Some (PStr []) \<and>
      ?g ''date'' = Some (PStr []) \<and> ?g ''reviewer'' = Some (PStr [])"
    by (rule conjI [OF example_sparse_g2 conjI [OF mem_g conjI [OF dom_g fields_g]]])
  then have g2: "\<exists>out r.
      g2_filter example_lib ''2024-01-01'' ''2024-06-30'' [sparse_record] = Inr out \<and>
      r \<in> set out \<and>
      dom r = {''title'', ''description'', ''date'', ''rating'', ''reviewer'', ''source''} \<and>
      r ''title'' = Some (PStr []) \<and> r ''description'' = Some (PStr []) \<and>
      r ''date'' = Some (PStr []) \<and> r ''reviewer'' = Some (PStr [])"
    by (intro exI)
  from sparse_record_fields(1-4) cap g2 show ?thesis by (intro conjI)
qed

section \<open>Properties of the orchestrator\<close>

declare mkdir_parents.simps [simp del]

lemma anchor_short: "is_anchor p \<Longrightarrow> length p \<le> 1"
  by (auto simp: is_anchor_def)

lemma not_anchor_parent: "\<not> is_anchor p \<Longrightarrow> parent p = butlast p \<and> p \<noteq> [] \<and> parent p \<noteq> p"
proof -
  assume a: "\<not> is_anchor p"
  then have ne: "p \<noteq> []" by (simp add: is_anchor_def)
  then have "butlast p \<noteq> p" by (cases p rule: rev_cases) simp_all
  with a ne show ?thesis by (simp add: parent_def)
qed

lemma fs_lookup_anchor: "is_anchor p \<Longrightarrow> fs_lookup fs p = Some Dir"
  by (simp add: fs_lookup_def)

lemma fs_lookup_other: "\<not> is_anchor p \<Longrightarrow> fs_lookup fs p = fs p"
  by (simp add: fs_lookup_def)

lemma os_mkdir_Inr:
  assumes "os_mkdir fs p = Inr fs'"
  shows "\<not> is_anchor p \<and> fs p = None \<and> is_dir fs (parent p) \<and> fs' = fs(p \<mapsto> Dir)"
proof -
  from assms have par: "fs_lookup fs (parent p) = Some Dir"
    by (auto simp: os_mkdir_def split: option.splits fs_entry.splits)
  with assms have free: "fs_lookup fs p = None" and fs': "fs' = fs(p \<mapsto> Dir)"
    by (auto simp: os_mkdir_def split: option.splits)
  from free have na: "\<not> is_anchor p" by (auto simp: fs_lookup_def split: if_splits)
  with free have "fs p = None" by (simp add: fs_lookup_other)
  with na par fs' show ?thesis by (simp add: is_dir_def)
qed

lemma is_dir_update:
  assumes "fs p = None" "is_dir fs q"
  shows "is_dir (fs(p \<mapsto> e)) q"
proof (cases "is_anchor q")
  case True
  then show ?thesis by (simp add: is_dir_def fs_lookup_anchor)
next
  case False
  with assms have "fs q = Some Dir" by (simp add: is_dir_def fs_lookup_other)
  with assms(1) have "q \<noteq> p" by auto
  with False \<open>fs q = Some Dir\<close> show ?thesis by (simp add: is_dir_def fs_lookup_other)
qed

lemma wf_fs_mkdir:
  assumes wf: "wf_fs fs" and na: "\<not> is_anchor p" and free: "fs p = None"
    and par: "is_dir fs (parent p)"
  shows "wf_fs (fs(p \<mapsto> Dir))"
  unfolding wf_fs_def
proof (intro allI impI)
  fix q
  assume q: "(fs(p \<mapsto> Dir)) q \<noteq> None"
  show "is_dir (fs(p \<mapsto> Dir)) (parent q)"
  proof (cases "q = p")
    case True
    with par free show ?thesis by (simp add: is_dir_update)
  next
    case False
    with q have "fs q \<noteq> None" by simp
    with wf have "is_dir fs (parent q)" by (simp add: wf_fs_def)
    with free show ?thesis by (rule is_dir_update)
  qed
qed

lemma os_mkdir_result:
  assumes "os_mkdir fs p = Inr fs'"
  shows "is_dir fs' p \<and> (wf_fs fs \<longrightarrow> wf_fs fs') \<and>
         (\<forall>q. fs' q = fs q \<or> fs q = None \<and> fs' q = Some Dir)"
proof -
  from os_mkdir_Inr [OF assms] have na: "\<not> is_anchor p" and free: "fs p = None"
    and par: "is_dir fs (parent p)" and fs': "fs' = fs(p \<mapsto> Dir)"
    by simp_all
  from na fs' have "is_dir fs' p" by (simp add: is_dir_def fs_lookup_other)
  moreover from wf_fs_mkdir [OF _ na free par] fs' have "wf_fs fs \<longrightarrow> wf_fs fs'" by simp
  moreover from free fs' have "\<forall>q. fs' q = fs q \<or> fs q = None \<and> fs' q = Some Dir" by simp
  ultimately show ?thesis by simp
qed

lemma mkdir_no_parents_result:
  assumes "mkdir_no_parents ok fs p = Inr fs'"
  shows "is_dir fs' p \<and> (wf_fs fs \<longrightarrow> wf_fs fs') \<and>
         (\<forall>q. fs' q = fs q \<or> fs q = None \<and> fs' q = Some Dir)"
proof (cases "os_mkdir fs p")
  case (Inr f)
  with assms have "f = fs'" by (simp add: mkdir_no_parents_def)
  with os_mkdir_result [OF Inr] show ?thesis by simp
next
  case (Inl e)
  with assms have "fs' = fs" "is_dir fs p"
    by (auto simp: mkdir_no_parents_def split: if_splits)
  then show ?thesis by simp
qed

lemma mkdir_parents_result:
  "mkdir_parents ok fs p = Inr fs' \<Longrightarrow>
   is_dir fs' p \<and> (wf_fs fs \<longrightarrow> wf_fs fs') \<and>
   (\<forall>q. fs' q = fs q \<or> fs q = None \<and> fs' q = Some Dir)"
proof (induction ok fs p arbitrary: fs' rule: mkdir_parents.induct)
  case (1 exist_ok fs p)
  show ?case
  proof (cases "os_mkdir fs p")
    case (Inr f)
    with "1.prems" have "f = fs'" by (simp add: mkdir_parents.simps [of exist_ok fs p])
    with os_mkdir_result [OF Inr] show ?thesis by simp
  next
    case (Inl e)
    show ?thesis
    proof (cases "e = FileNotFoundError")
      case False
      with Inl "1.prems" have "fs' = fs" "is_dir fs p"
        by (auto simp: mkdir_parents.simps [of exist_ok fs p] split: if_splits)
      then show ?thesis by simp
    next
      case True
      with Inl "1.prems" have ne: "parent p \<noteq> p"
        by (auto simp: mkdir_parents.simps [of exist_ok fs p] split: if_splits)
      with Inl True "1.prems" obtain f1 where
        f1: "mkdir_parents True fs (parent p) = Inr f1" and
        last: "mkdir_no_parents exist_ok f1 p = Inr fs'"
        by (auto simp: mkdir_parents.simps [of exist_ok fs p] split: sum.splits)
      from "1.IH" [OF Inl True ne f1]
      have a: "wf_fs fs \<longrightarrow> wf_fs f1" "\<forall>q. f1 q = fs q \<or> fs q = None \<and> f1 q = Some Dir"
        by simp_all
      from mkdir_no_parents_result [OF last]
      have b: "is_dir fs' p" "wf_fs f1 \<longrightarrow> wf_fs fs'"
        "\<forall>q. fs' q = f1 q \<or> f1 q = None \<and> fs' q = Some Dir"
        by simp_all
      have "fs' q = fs q \<or> fs q = None \<and> fs' q = Some Dir" for q
        using a(2) [rule_format, of q] b(3) [rule_format, of q] by auto
      with a(1) b(1,2) show ?thesis by simp
    qed
  qed
qed

lemma mkdir_parents_existing:
  assumes "wf_fs fs" "is_dir fs p"
  shows "mkdir_parents True fs p = Inr fs"
proof -
  have par: "fs_lookup fs (parent p) = Some Dir"
  proof (cases "is_anchor p")
    case True
    then show ?thesis by (simp add: parent_def fs_lookup_anchor)
  next
    case False
    with assms(2) have "fs p \<noteq> None" by (simp add: is_dir_def fs_lookup_other)
    with assms(1) show ?thesis by (simp add: wf_fs_def is_dir_def)
  qed
  with assms(2) have "os_mkdir fs p = Inl FileExistsError"
    by (simp add: os_mkdir_def is_dir_def)
  with assms(2) show ?thesis by (simp add: mkdir_parents.simps [of True fs p])
qed

lemma wf_fs_prefix_dirs:
  assumes "wf_fs fs"
  shows "is_dir fs (xs @ ys) \<Longrightarrow> is_dir fs xs"
proof (induction ys rule: rev_induct)
  case Nil
  then show ?case by simp
next
  case (snoc y ys)
  have "is_dir fs (xs @ ys)"
  proof (cases "is_anchor (xs @ ys @ [y])")
    case True
    from anchor_short [OF this] have "xs @ ys = []" by simp
    then show ?thesis by (simp add: is_dir_def fs_lookup_anchor is_anchor_def)
  next
    case False
    with snoc.prems have "fs (xs @ ys @ [y]) \<noteq> None" by (simp add: is_dir_def fs_lookup_other)
    with assms have "is_dir fs (parent (xs @ ys @ [y]))" by (simp add: wf_fs_def)
    with not_anchor_parent [OF False] show ?thesis by (simp add: butlast_append)
  qed
  then show ?case by (rule snoc.IH)
qed

lemma wf_fs_take_dirs: "wf_fs fs \<Longrightarrow> is_dir fs p \<Longrightarrow> is_dir fs (take k p)"
  using wf_fs_prefix_dirs [of fs "take k p" "drop k p"] by simp

lemma mkdir_parents_succeeds:
  "wf_fs fs \<Longrightarrow> (\<forall>k c. fs_lookup fs (take k p) \<noteq> Some (File c)) \<Longrightarrow> ok \<Longrightarrow>
   \<exists>fs'. mkdir_parents ok fs p = Inr fs'"
proof (induction ok fs p rule: mkdir_parents.induct)
  case (1 exist_ok fs p)
  from "1.prems"(2) [rule_format, of "length p"] have nofile: "\<And>c. fs_lookup fs p \<noteq> Some (File c)"
    by simp
  show ?case
  proof (cases "os_mkdir fs p")
    case (Inr f)
    then show ?thesis by (simp add: mkdir_parents.simps [of exist_ok fs p] mkdir_parents.simps [of True fs p])
  next
    case (Inl e)
    show ?thesis
    proof (cases "is_anchor p")
      case True
      with Inl have "e = FileExistsError"
        by (simp add: os_mkdir_def parent_def fs_lookup_anchor)
      with Inl True "1.prems"(3) show ?thesis
        by (simp add: mkdir_parents.simps [of exist_ok fs p] mkdir_parents.simps [of True fs p] is_dir_def fs_lookup_anchor)
    next
      case False
      note par = not_anchor_parent [OF False]
      from par have tk: "parent p = take (length p - 1) p" by (simp add: butlast_conv_take)
      with "1.prems"(2) [rule_format, of "length p - 1"]
      have parfile: "\<And>c. fs_lookup fs (parent p) \<noteq> Some (File c)" by simp
      show ?thesis
      proof (cases "fs_lookup fs (parent p)")
        case None
        with Inl have e: "e = FileNotFoundError" by (simp add: os_mkdir_def)
        have "\<forall>k c. fs_lookup fs (take k (parent p)) \<noteq> Some (File c)"
          using "1.prems"(2) by (simp add: tk min_def)
        from "1.IH" [OF Inl e _ "1.prems"(1) this] par
        obtain f1 where f1: "mkdir_parents True fs (parent p) = Inr f1" by auto
        from mkdir_parents_result [OF f1]
        have d: "is_dir f1 (parent p)" and
          only: "\<forall>q. f1 q = fs q \<or> fs q = None \<and> f1 q = Some Dir" by simp_all
        from nofile False have "fs p = None \<or> fs p = Some Dir"
          by (metis fs_lookup_other fs_entry.exhaust option.exhaust)
        with only [rule_format, of p]
        have "f1 p = None \<or> f1 p = Some Dir" by auto
        with d False "1.prems"(3) have "\<exists>fs'. mkdir_no_parents exist_ok f1 p = Inr fs'"
          by (auto simp: mkdir_no_parents_def os_mkdir_def is_dir_def fs_lookup_other)
        moreover from par have "parent p \<noteq> p" by (rule conjunct2 [OF conjunct2])
        ultimately show ?thesis using Inl e f1
          by (simp add: mkdir_parents.simps [of exist_ok fs p] mkdir_parents.simps [of True fs p])
      next
        case (Some x)
        with parfile have x: "x = Dir" by (cases x) auto
        with Inl Some obtain y where y: "fs_lookup fs p = Some y" and e: "e = FileExistsError"
          by (auto simp: os_mkdir_def split: option.splits)
        from y nofile have "y = Dir" by (cases y) auto
        with y have "is_dir fs p" by (simp add: is_dir_def)
        with Inl e "1.prems"(3) show ?thesis
          by (simp add: mkdir_parents.simps [of exist_ok fs p] mkdir_parents.simps [of True fs p])
      qed
    qed
  qed
qed

lemma open_write_keeps_dirs:
  assumes "open_write fs p content = Inr fs'" "is_dir fs q"
  shows "is_dir fs' q"
proof (cases "is_anchor q")
  case True
  then show ?thesis by (simp add: is_dir_def fs_lookup_anchor)
next
  case False
  from assms(1) have fs': "fs' = fs(p \<mapsto> File content)" and nd: "fs_lookup fs p \<noteq> Some Dir"
    by (auto simp: open_write_def split: option.splits fs_entry.splits)
  from assms(2) nd have "q \<noteq> p" by (auto simp: is_dir_def)
  with assms(2) False fs' show ?thesis by (simp add: is_dir_def fs_lookup_other)
qed

lemma save_json_Inr:
  assumes "save_json fs outdir fname reviews = (fs', Inr (outpath, written))"
  shows "\<exists>fs1. path_mkdir True True fs (path_parts outdir) = Inr fs1 \<and>
               open_write fs1 outpath written = Inr fs' \<and> written = reviews"
  using assms by (auto simp: save_json_def Let_def split: sum.splits)

lemma run_scraper_Inr:
  assumes "run_scraper lib br fs company start_date end_date source outdir =
             (fs', Inr (outpath, reviews))"
  shows "\<exists>fname. save_json fs outdir fname reviews = (fs', Inr (outpath, reviews))"
proof -
  from assms obtain fname rs where s: "save_json fs outdir fname rs = (fs', Inr (outpath, reviews))"
    by (auto simp: run_scraper_def Let_def split: option.splits if_splits sum.splits)
  from save_json_Inr [OF s] have "reviews = rs" by auto
  with s show ?thesis by auto
qed

text \<open>
  C10. On a successful run the orchestrator has made the output directory before it writes
  the file: \<open>mkdir(parents=True, exist_ok=True)\<close> returns a file system in which the
  output directory is a directory, having only added directories, and the file is written
  into that file system; on a well-formed file system every ancestor of the output
  directory is a directory afterwards. An output directory that exists already is no
  failure: the call leaves the file system as it is, and the save step goes on to write the
  file. Missing parents are no failure either: the call succeeds whenever no prefix of the
  path is a regular file, and the save step goes on to write the file.
\<close>

theorem output_directory_created:
  "(run_scraper lib br fs company start_date end_date source outdir =
      (fs', Inr (outpath, reviews)) \<longrightarrow>
      (\<exists>fs1. path_mkdir True True fs (path_parts outdir) = Inr fs1 \<and>
             is_dir fs1 (path_parts outdir) \<and>
             (\<forall>q. fs1 q = fs q \<or> fs q = None \<and> fs1 q = Some Dir) \<and>
             open_write fs1 outpath reviews = Inr fs' \<and>
             is_dir fs' (path_parts outdir) \<and>
             (wf_fs fs \<longrightarrow> (\<forall>k. is_dir fs' (take k (path_parts outdir)))))) \<and>
   (wf_fs fs \<longrightarrow> is_dir fs (path_parts outdir) \<longrightarrow>
      path_mkdir True True fs (path_parts outdir) = Inr fs \<and>
      save_json fs outdir fname reviews =
        (case open_write fs (path_join (path_parts outdir) fname) reviews of
           Inl e \<Rightarrow> (fs, Inl e)
         | Inr fs2 \<Rightarrow> (fs2, Inr (path_join (path_parts outdir) fname, reviews)))) \<and>
   (wf_fs fs \<longrightarrow> (\<forall>k c. fs_lookup fs (take k (path_parts outdir)) \<noteq> Some (File c)) \<longrightarrow>
      (\<exists>fs1. path_mkdir True True fs (path_parts outdir) = Inr fs1 \<and>
             save_json fs outdir fname reviews =
               (case open_write fs1 (path_join (path_parts outdir) fname) reviews of
                  Inl e \<Rightarrow> (fs1, Inl e)
                | Inr fs2 \<Rightarrow> (fs2, Inr (path_join (path_parts outdir) fname, reviews)))))"
proof (intro conjI impI)
  assume run: "run_scraper lib br fs company start_date end_date source outdir =
      (fs', Inr (outpath, reviews))"
  from run_scraper_Inr [OF run] obtain fname where
    "save_json fs outdir fname reviews = (fs', Inr (outpath, reviews))" by blast
  from save_json_Inr [OF this] obtain fs1 where
    mk: "path_mkdir True True fs (path_parts outdir) = Inr fs1" and
    wr: "open_write fs1 outpath reviews = Inr fs'"
    by blast
  from mk have mk': "mkdir_parents True fs (path_parts outdir) = Inr fs1"
    by (simp add: path_mkdir_def)
  note res = mkdir_parents_result [OF mk']
  from res have d1: "is_dir fs1 (path_parts outdir)" by simp
  from res have only: "\<forall>q. fs1 q = fs q \<or> fs q = None \<and> fs1 q = Some Dir" by simp
  from open_write_keeps_dirs [OF wr d1] have d2: "is_dir fs' (path_parts outdir)" .
  have all: "wf_fs fs \<longrightarrow> (\<forall>k. is_dir fs' (take k (path_parts outdir)))"
  proof (intro impI allI)
    fix k
    assume "wf_fs fs"
    with res have "wf_fs fs1" by simp
    from wf_fs_take_dirs [OF this d1] have "is_dir fs1 (take k (path_parts outdir))" .
    with wr show "is_dir fs' (take k (path_parts outdir))" by (rule open_write_keeps_dirs)
  qed
  from mk d1 only wr d2 all
  show "\<exists>fs1. path_mkdir True True fs (path_parts outdir) = Inr fs1 \<and>
             is_dir fs1 (path_parts outdir) \<and>
             (\<forall>q. fs1 q = fs q \<or> fs q = None \<and> fs1 q = Some Dir) \<and>
             open_write fs1 outpath reviews = Inr fs' \<and>
             is_dir fs' (path_parts outdir) \<and>
             (wf_fs fs \<longrightarrow> (\<forall>k. is_dir fs' (take k (path_parts outdir))))"
    by (intro exI conjI)
next
  assume "wf_fs fs" "is_dir fs (path_parts outdir)"
  then show mk: "path_mkdir True True fs (path_parts outdir) = Inr fs"
    by (simp add: path_mkdir_def mkdir_parents_existing)
  show "save_json fs outdir fname reviews =
        (case open_write fs (path_join (path_parts outdir) fname) reviews of
           Inl e \<Rightarrow> (fs, Inl e)
         | Inr fs2 \<Rightarrow> (fs2, Inr (path_join (path_parts outdir) fname, reviews)))"
    by (simp add: save_json_def mk Let_def)
next
  assume "wf_fs fs" "\<forall>k c. fs_lookup fs (take k (path_parts outdir)) \<noteq> Some (File c)"
  from mkdir_parents_succeeds [OF this, of True]
  obtain fs1 where mk: "path_mkdir True True fs (path_parts outdir) = Inr fs1"
    by (auto simp: path_mkdir_def)
  have "save_json fs outdir fname reviews =
        (case open_write fs1 (path_join (path_parts outdir) fname) reviews of
           Inl e \<Rightarrow> (fs1, Inl e)
         | Inr fs2 \<Rightarrow> (fs2, Inr (path_join (path_parts outdir) fname, reviews)))"
    by (simp add: save_json_def mk Let_def)
  with mk have "path_mkdir True True fs (path_parts outdir) = Inr fs1 \<and>
      save_json fs outdir fname reviews =
        (case open_write fs1 (path_join (path_parts outdir) fname) reviews of
           Inl e \<Rightarrow> (fs1, Inl e)
         | Inr fs2 \<Rightarrow> (fs2, Inr (path_join (path_parts outdir) fname, reviews)))"
    by (intro conjI)
  then show "\<exists>fs1. path_mkdir True True fs (path_parts outdir) = Inr fs1 \<and>
      save_json fs outdir fname reviews =
        (case open_write fs1 (path_join (path_parts outdir) fname) reviews of
           Inl e \<Rightarrow> (fs1, Inl e)
         | Inr fs2 \<Rightarrow> (fs2, Inr (path_join (path_parts outdir) fname, reviews)))"
    by (intro exI)
qed

lemma example_paths:
  "path_parts ''out/reviews'' = [''out'', ''reviews'']"
  "path_parts ''.'' = []"
  "path_join [''out'', ''reviews''] ''zoho-crm_capterra_20240101_to_20240630.json'' =
     [''out'', ''reviews'', ''zoho-crm_capterra_20240101_to_20240630.json'']"
  "path_join [] ''reviews.json'' = [''reviews.json'']"
  by (simp_all add: path_parts_def path_root_def path_join_def)

lemma example_mkdir:
  "path_mkdir True True Map.empty [''out'', ''reviews''] =
     Inr [[''out''] \<mapsto> Dir, [''out'', ''reviews''] \<mapsto> Dir]"
  by (simp add: path_mkdir_def mkdir_parents.simps [of True Map.empty "[''out'', ''reviews'']"]
        mkdir_parents.simps [of True Map.empty "[''out'']"] mkdir_no_parents_def os_mkdir_def
        fs_lookup_def is_anchor_def parent_def)

lemma example_run:
  "run_scraper example_lib (example_browser three_nodes) Map.empty ''zoho-crm'' ''2024-01-01''
     ''2024-06-30'' ''capterra'' ''out/reviews'' =
   ([[''out''] \<mapsto> Dir, [''out'', ''reviews''] \<mapsto> Dir,
     [''out'', ''reviews'', ''zoho-crm_capterra_20240101_to_20240630.json''] \<mapsto>
       File [review_copy example_lib ''Capterra'' (Some ''2024-03-15'') (example_record ''Great'' ''2024-03-15''),
             review_copy example_lib ''Capterra'' None (example_record ''Vague'' ''3 months ago'')]],
    Inr ([''out'', ''reviews'', ''zoho-crm_capterra_20240101_to_20240630.json''],
         [review_copy example_lib ''Capterra'' (Some ''2024-03-15'') (example_record ''Great'' ''2024-03-15''),
          review_copy example_lib ''Capterra'' None (example_record ''Vague'' ''3 months ago'')]))"
proof -
  have dates: "dateutil_parse example_lib ''2024-01-01'' = Some ''2024-01-01''"
    "dateutil_parse example_lib ''2024-06-30'' = Some ''2024-06-30''"
    "dt_gt example_lib ''2024-01-01'' ''2024-06-30'' = Some False"
    by (simp_all add: example_lib_def example_parse_def date_token_here_def is_digit_def
          boundary_next_def iso_number_def)
  have name: "output_name example_lib ''zoho-crm'' ''capterra'' ''2024-01-01'' ''2024-06-30'' =
      ''zoho-crm_capterra_20240101_to_20240630.json''"
    by (simp add: output_name_def example_lib_def is_digit_def)
  have low: "str_lower ''capterra'' = ''capterra''"
    by (simp add: str_lower_def lower_char_def)
  have br: "starts (example_browser three_nodes)" "closes (example_browser three_nodes)"
    by (simp_all add: example_browser_def)
  show ?thesis
    by (simp add: run_scraper_def dates name low br dispatch_def example_capterra save_json_def
          example_paths example_mkdir open_write_def fs_lookup_def is_anchor_def parent_def
          Let_def)
qed

theorem output_directory_created_witness:
  "\<exists>fs' reviews.
     run_scraper example_lib (example_browser three_nodes) Map.empty ''zoho-crm'' ''2024-01-01''
       ''2024-06-30'' ''capterra'' ''out/reviews'' =
       (fs', Inr ([''out'', ''reviews'', ''zoho-crm_capterra_20240101_to_20240630.json''], reviews)) \<and>
     wf_fs Map.empty \<and>
     \<not> is_dir Map.empty [''out''] \<and>
     is_dir fs' (path_parts ''out/reviews'') \<and>
     is_dir fs' (take 1 (path_parts ''out/reviews'')) \<and>
     take 1 (path_parts ''out/reviews'') = [''out''] \<and>
     is_dir Map.empty (path_parts ''.'') \<and>
     path_mkdir True True Map.empty (path_parts ''.'') = Inr Map.empty \<and>
     save_json Map.empty ''.'' ''reviews.json'' [] =
       ([[''reviews.json''] \<mapsto> File []], Inr ([''reviews.json''], [])) \<and>
     (\<exists>fs1. path_mkdir True True Map.empty (path_parts ''out/reviews'') = Inr fs1)"
proof -
  let ?out = "[review_copy example_lib ''Capterra'' (Some ''2024-03-15'') (example_record ''Great'' ''2024-03-15''),
          review_copy example_lib ''Capterra'' None (example_record ''Vague'' ''3 months ago'')]"
  let ?path = "[''out'', ''reviews'', ''zoho-crm_capterra_20240101_to_20240630.json'']"
  let ?fs = "[[''out''] \<mapsto> Dir, [''out'', ''reviews''] \<mapsto> Dir, ?path \<mapsto> File ?out]"
  have wf: "wf_fs Map.empty" by (simp add: wf_fs_def)
  note made = output_directory_created
    [of example_lib "example_browser three_nodes" Map.empty "''zoho-crm''" "''2024-01-01''"
        "''2024-06-30''" "''capterra''" "''out/reviews''" ?fs ?path ?out "''reviews.json''"]
  note here = output_directory_created
    [of example_lib "example_browser three_nodes" Map.empty "''zoho-crm''" "''2024-01-01''"
        "''2024-06-30''" "''capterra''" "''.''" ?fs ?path "[]" "''reviews.json''"]
  from mp [OF made [THEN conjunct1] example_run] obtain fs1 :: filesystem where
    d: "is_dir ?fs (path_parts ''out/reviews'')" and
    ds: "wf_fs Map.empty \<longrightarrow> (\<forall>k. is_dir ?fs (take k (path_parts ''out/reviews'')))"
    by (elim exE conjE)
  from ds wf have d1: "is_dir ?fs (take 1 (path_parts ''out/reviews''))" by (elim impE allE)
  have root: "is_dir Map.empty (path_parts ''.'')"
    by (simp add: example_paths is_dir_def fs_lookup_def is_anchor_def)
  from here [THEN conjunct2, THEN conjunct1] wf root
  have existing: "path_mkdir True True Map.empty (path_parts ''.'') = Inr Map.empty \<and>
      save_json Map.empty ''.'' ''reviews.json'' [] =
        (case open_write Map.empty (path_join (path_parts ''.'') ''reviews.json'') [] of
           Inl e \<Rightarrow> (Map.empty, Inl e)
         | Inr fs2 \<Rightarrow> (fs2, Inr (path_join (path_parts ''.'') ''reviews.json'', [])))"
    by (elim impE)
  from existing
  have same: "path_mkdir True True Map.empty (path_parts ''.'') = Inr Map.empty"
    by (rule conjunct1)
  have "open_write Map.empty [''reviews.json''] [] = Inr [[''reviews.json''] \<mapsto> File []]"
    by (simp add: open_write_def fs_lookup_def is_anchor_def parent_def)
  with existing [THEN conjunct2]
  have saved: "save_json Map.empty ''.'' ''reviews.json'' [] =
       ([[''reviews.json''] \<mapsto> File []], Inr ([''reviews.json''], []))"
    by (simp add: example_paths)
  have nofile: "\<forall>k c. fs_lookup Map.empty (take k (path_parts ''out/reviews'')) \<noteq> Some (File c)"
    by (simp add: fs_lookup_def)
  from made [THEN conjunct2, THEN conjunct2] wf nofile
  have "\<exists>fs1. path_mkdir True True Map.empty (path_parts ''out/reviews'') = Inr fs1 \<and>
      save_json Map.empty ''out/reviews'' ''reviews.json'' ?out =
        (case open_write fs1 (path_join (path_parts ''out/reviews'') ''reviews.json'') ?out of
           Inl e \<Rightarrow> (fs1, Inl e)
         | Inr fs2 \<Rightarrow> (fs2, Inr (path_join (path_parts ''out/reviews'') ''reviews.json'', ?out)))"
    by (elim impE)
  then have ok: "\<exists>fs1. path_mkdir True True Map.empty (path_parts ''out/reviews'') = Inr fs1"
    by (elim exE conjE) (intro exI)
  have nd: "\<not> is_dir Map.empty [''out'']"
    by (simp add: is_dir_def fs_lookup_def is_anchor_def)
  have t1: "take 1 (path_parts ''out/reviews'') = [''out'']" by (simp add: example_paths)
  from example_run wf nd d d1 t1 root same saved ok
  have "run_scraper example_lib (example_browser three_nodes) Map.empty ''zoho-crm'' ''2024-01-01''
       ''2024-06-30'' ''capterra'' ''out/reviews'' = (?fs, Inr (?path, ?out)) \<and>
     wf_fs Map.empty \<and>
     \<not> is_dir Map.empty [''out''] \<and>
     is_dir ?fs (path_parts ''out/reviews'') \<and>
     is_dir ?fs (take 1 (path_parts ''out/reviews'')) \<and>
     take 1 (path_parts ''out/reviews'') = [''out''] \<and>
     is_dir Map.empty (path_parts ''.'') \<and>
     path_mkdir True True Map.empty (path_parts ''.'') = Inr Map.empty \<and>
     save_json Map.empty ''.'' ''reviews.json'' [] =
       ([[''reviews.json''] \<mapsto> File []], Inr ([''reviews.json''], [])) \<and>
     (\<exists>fs1. path_mkdir True True Map.empty (path_parts ''out/reviews'') = Inr fs1)"
    by (intro conjI)
  then show ?thesis by (intro exI)
qed

lemma dispatch_unsupported:
  assumes "source_lower \<notin> {''g2'', ''capterra'', ''trustradius'', ''trust radius'', ''trust-radius''}"
  shows "dispatch lib br company start end_d source_lower =
           Inl (ValueError ''Unsupported source. Choose 'g2', 'capterra' or 'trustradius'.'')"
proof -
  from assms have "source_lower \<noteq> ''g2''" "source_lower \<noteq> ''capterra''"
    "source_lower \<notin> {''trustradius'', ''trust radius'', ''trust-radius''}"
    by simp_all
  then show ?thesis unfolding dispatch_def by (simp only: if_False)
qed

text \<open>
  C8, as the code has it. An unsupported \<open>--source\<close> value never reaches
  \<open>run_scraper\<close>: \<open>argparse\<close> rejects a value outside \<open>choices\<close> and the process
  ends with status 2, the file system untouched. \<open>run_scraper\<close> itself, called with a
  source it does not know, raises and leaves the file system untouched; the exception is
  the \<open>ValueError\<close> for an unsupported source once the dates are valid and the browser
  has started. \<open>main\<close> ends with status 1 on an exception of \<open>run_scraper\<close>, which
  it only calls with arguments that passed the parser.
\<close>

theorem unsupported_source_rejected:
  "(opt_source cl = Some src \<longrightarrow> src \<notin> set source_choices \<longrightarrow> main lib br fs cl = (2, fs)) \<and>
   (str_lower source \<notin> {''g2'', ''capterra'', ''trustradius'', ''trust radius'', ''trust-radius''} \<longrightarrow>
      (\<exists>e. run_scraper lib br fs company start_date end_date source outdir = (fs, Inl e)) \<and>
      (\<forall>start end_d.
         dateutil_parse lib start_date = Some start \<longrightarrow>
         dateutil_parse lib end_date = Some end_d \<longrightarrow>
         dt_gt lib start end_d = Some False \<longrightarrow> starts br \<longrightarrow>
         run_scraper lib br fs company start_date end_date source outdir =
           (fs, Inl (ValueError ''Unsupported source. Choose 'g2', 'capterra' or 'trustradius'.'')))) \<and>
   (parse_args cl = Inr a \<longrightarrow>
      run_scraper lib br fs (arg_company a) (arg_start a) (arg_end a) (arg_source a)
        (arg_outdir a) = (fs', Inl e) \<longrightarrow>
      arg_source a \<in> set source_choices \<and> main lib br fs cl = (1, fs'))"
proof (intro conjI impI allI)
  assume "opt_source cl = Some src" "src \<notin> set source_choices"
  then show "main lib br fs cl = (2, fs)"
    by (simp add: main_def parse_args_def split: option.splits)
next
  assume u: "str_lower source \<notin> {''g2'', ''capterra'', ''trustradius'', ''trust radius'', ''trust-radius''}"
  note d = dispatch_unsupported [OF u]
  show "\<exists>e. run_scraper lib br fs company start_date end_date source outdir = (fs, Inl e)"
    by (simp add: run_scraper_def d Let_def split: option.splits)
  fix start end_d
  assume "dateutil_parse lib start_date = Some start" "dateutil_parse lib end_date = Some end_d"
    "dt_gt lib start end_d = Some False" "starts br"
  then show "run_scraper lib br fs company start_date end_date source outdir =
           (fs, Inl (ValueError ''Unsupported source. Choose 'g2', 'capterra' or 'trustradius'.''))"
    by (simp add: run_scraper_def d Let_def)
next
  assume p: "parse_args cl = Inr a"
  then show "arg_source a \<in> set source_choices"
    by (auto simp: parse_args_def split: option.splits if_splits)
  assume "run_scraper lib br fs (arg_company a) (arg_start a) (arg_end a) (arg_source a)
        (arg_outdir a) = (fs', Inl e)"
  with p show "main lib br fs cl = (1, fs')"
    by (simp add: main_def)
qed

theorem unsupported_source_rejected_witness:
  "main example_lib (example_browser three_nodes) Map.empty
     \<lparr>opt_company = Some ''zoho-crm'', opt_start = Some ''2024-01-01'',
      opt_end = Some ''2024-06-30'', opt_source = Some ''foo'', opt_outdir = None\<rparr> = (2, Map.empty) \<and>
   ''foo'' \<notin> set source_choices \<and>
   str_lower ''foo'' \<notin> {''g2'', ''capterra'', ''trustradius'', ''trust radius'', ''trust-radius''} \<and>
   run_scraper example_lib (example_browser three_nodes) Map.empty ''zoho-crm'' ''2024-01-01''
     ''2024-06-30'' ''foo'' ''.'' =
     (Map.empty, Inl (ValueError ''Unsupported source. Choose 'g2', 'capterra' or 'trustradius'.'')) \<and>
   run_scraper example_lib (example_browser three_nodes) Map.empty ''zoho-crm'' ''yesterday''
     ''2024-06-30'' ''g2'' ''.'' = (Map.empty, Inl (ValueError ''Invalid date(s)'')) \<and>
   main example_lib (example_browser three_nodes) Map.empty
     \<lparr>opt_company = Some ''zoho-crm'', opt_start = Some ''yesterday'',
      opt_end = Some ''2024-06-30'', opt_source = Some ''g2'', opt_outdir = None\<rparr> = (1, Map.empty)"
proof -
  let ?cl' = "\<lparr>opt_company = Some ''zoho-crm'', opt_start = Some ''yesterday'',
      opt_end = Some ''2024-06-30'', opt_source = Some ''g2'', opt_outdir = None\<rparr>"
  let ?a = "\<lparr>arg_company = ''zoho-crm'', arg_start = ''yesterday'', arg_end = ''2024-06-30'',
      arg_source = ''g2'', arg_outdir = ''.''\<rparr>"
  have parsed: "parse_args ?cl' = Inr ?a"
    by (simp add: parse_args_def source_choices_def)
  have raised: "run_scraper example_lib (example_browser three_nodes) Map.empty ''zoho-crm''
      ''yesterday'' ''2024-06-30'' ''g2'' ''.'' = (Map.empty, Inl (ValueError ''Invalid date(s)''))"
    by (simp add: run_scraper_def example_lib_def example_parse_def)
  then have raised': "run_scraper example_lib (example_browser three_nodes) Map.empty
      (arg_company ?a) (arg_start ?a) (arg_end ?a) (arg_source ?a) (arg_outdir ?a) =
      (Map.empty, Inl (ValueError ''Invalid date(s)''))"
    by simp
  note exc = unsupported_source_rejected
    [of ?cl' _ example_lib "example_browser three_nodes" Map.empty _ _ _ _ _ ?a Map.empty
        "ValueError ''Invalid date(s)''", THEN conjunct2, THEN conjunct2]
  from exc parsed raised'
  have "arg_source ?a \<in> set source_choices \<and>
      main example_lib (example_browser three_nodes) Map.empty ?cl' = (1, Map.empty)"
    by (elim impE)
  then have m1: "main example_lib (example_browser three_nodes) Map.empty ?cl' = (1, Map.empty)"
    by (rule conjunct2)
  let ?cl = "\<lparr>opt_company = Some ''zoho-crm'', opt_start = Some ''2024-01-01'',
      opt_end = Some ''2024-06-30'', opt_source = Some ''foo'', opt_outdir = None\<rparr>"
  note rej = unsupported_source_rejected
    [of ?cl "''foo''" example_lib "example_browser three_nodes" Map.empty "''foo''"
        "''zoho-crm''" "''2024-01-01''" "''2024-06-30''" "''.''"]
  have src: "opt_source ?cl = Some ''foo''" by simp
  have nc: "''foo'' \<notin> set source_choices" by (simp add: source_choices_def)
  have low: "str_lower ''foo'' \<notin> {''g2'', ''capterra'', ''trustradius'', ''trust radius'', ''trust-radius''}"
    by (simp add: str_lower_def lower_char_def)
  have dates: "dateutil_parse example_lib ''2024-01-01'' = Some ''2024-01-01''"
    "dateutil_parse example_lib ''2024-06-30'' = Some ''2024-06-30''"
    "dt_gt example_lib ''2024-01-01'' ''2024-06-30'' = Some False"
    by (simp_all add: example_lib_def example_parse_def date_token_here_def is_digit_def
          boundary_next_def iso_number_def)
  have br: "starts (example_browser three_nodes)" by (simp add: example_browser_def)
  from rej [THEN conjunct1] src nc
  have m: "main example_lib (example_browser three_nodes) Map.empty ?cl = (2, Map.empty)"
    by (elim impE)
  from mp [OF rej [THEN conjunct2, THEN conjunct1] low]
  have "\<forall>start end_d.
         dateutil_parse example_lib ''2024-01-01'' = Some start \<longrightarrow>
         dateutil_parse example_lib ''2024-06-30'' = Some end_d \<longrightarrow>
         dt_gt example_lib start end_d = Some False \<longrightarrow> starts (example_browser three_nodes) \<longrightarrow>
         run_scraper example_lib (example_browser three_nodes) Map.empty ''zoho-crm'' ''2024-01-01''
           ''2024-06-30'' ''foo'' ''.'' =
           (Map.empty, Inl (ValueError ''Unsupported source. Choose 'g2', 'capterra' or 'trustradius'.''))"
    by (rule conjunct2)
  with dates br
  have r: "run_scraper example_lib (example_browser three_nodes) Map.empty ''zoho-crm'' ''2024-01-01''
           ''2024-06-30'' ''foo'' ''.'' =
           (Map.empty, Inl (ValueError ''Unsupported source. Choose 'g2', 'capterra' or 'trustradius'.''))"
    by (elim allE impE)
  from m nc low r raised m1 show ?thesis by (intro conjI)
qed

text \<open>
  C8 with the exit code of the specification fails: with \<open>--source foo\<close> the process
  ends with status 2, not 1.
\<close>

theorem unsupported_source_exit_code_counterexample:
  "fst (main example_lib (example_browser three_nodes) Map.empty
          \<lparr>opt_company = Some ''zoho-crm'', opt_start = Some ''2024-01-01'',
           opt_end = Some ''2024-06-30'', opt_source = Some ''foo'', opt_outdir = None\<rparr>) = 2 \<and>
   fst (main example_lib (example_browser three_nodes) Map.empty
          \<lparr>opt_company = Some ''zoho-crm'', opt_start = Some ''2024-01-01'',
           opt_end = Some ''2024-06-30'', opt_source = Some ''foo'', opt_outdir = None\<rparr>) \<noteq> 1"
  by (simp add: main_def parse_args_def source_choices_def)

end
